theory Spec2Isabelle
  imports
    Complex_Main
    "HOL-Library.Char_ord"
    "HOL-Library.List_Lexorder"
    "HOL-Library.Log_Nat"
    "HOL-Library.Sublist"
begin

section \<open>Python strings\<close>

text \<open>
  A Python \<open>str\<close> is a sequence of code points. The model is \<open>string\<close>, one \<open>char\<close>
  per code point, which covers the code points below 256 (Latin-1). On this range
  \<open>str.isspace\<close>, \<open>str.lower\<close>, \<open>str.strip\<close> and \<open>str.split\<close> are what the definitions
  below compute. Strings are compared as Python compares them: lexicographically by code
  point (the order of \<open>Char_ord\<close> lifted by \<open>List_Lexorder\<close>).
\<close>

definition isspace :: "char \<Rightarrow> bool" where
  \<comment> \<open>the white space of \<open>str.strip()\<close> and \<open>str.split()\<close>: TAB, LF, VT, FF, CR,
      FS, GS, RS, US, SPACE, NEL and NBSP\<close>
  "isspace c = (of_char c \<in> {9, 10, 11, 12, 13, 28, 29, 30, 31, 32, 133, 160 :: nat})"

definition lower_char :: "char \<Rightarrow> char" where
  \<comment> \<open>A-Z, and the Latin-1 capitals U+00C0 .. U+00DE without the multiplication sign\<close>
  "lower_char c =
     (let n = of_char c :: nat
      in if (65 \<le> n \<and> n \<le> 90) \<or> (192 \<le> n \<and> n \<le> 222 \<and> n \<noteq> 215)
         then char_of (n + 32) else c)"

definition lower :: "string \<Rightarrow> string" where
  "lower s = map lower_char s"

definition strip :: "string \<Rightarrow> string" where
  "strip s = rev (dropWhile isspace (rev (dropWhile isspace s)))"

fun split_from :: "string \<Rightarrow> string \<Rightarrow> string list" where
  \<comment> \<open>\<open>split_from word rest\<close>: \<open>word\<close> is the token read so far\<close>
  "split_from word [] = (if word = [] then [] else [word])"
| "split_from word (c # cs) =
     (if isspace c then (if word = [] then split_from [] cs else word # split_from [] cs)
      else split_from (word @ [c]) cs)"

definition str_split :: "string \<Rightarrow> string list" where
  \<comment> \<open>\<open>s.split()\<close>: the maximal runs of characters that are not white space\<close>
  "str_split s = split_from [] s"

fun str_contains :: "string \<Rightarrow> string \<Rightarrow> bool" where
  \<comment> \<open>\<open>str_contains sub s\<close> is Python's \<open>sub in s\<close>\<close>
  "str_contains sub [] = (sub = [])"
| "str_contains sub (c # cs) = (prefix sub (c # cs) \<or> str_contains sub cs)"

fun join :: "string \<Rightarrow> string list \<Rightarrow> string" where
  "join sep [] = []"
| "join sep [x] = x"
| "join sep (x # y # ys) = x @ sep @ join sep (y # ys)"

fun str_nat :: "nat \<Rightarrow> string" where
  \<comment> \<open>the decimal digits of a length, as an f-string prints it\<close>
  "str_nat n =
     (if n < 10 then [char_of (48 + n)] else str_nat (n div 10) @ [char_of (48 + n mod 10)])"

declare str_nat.simps [simp del]

section \<open>Python numbers\<close>

text \<open>
  Scores are Python floats, binary64. The one quotient and the one product of the source,
  \<open>len(overlap) / max(len(job_skills), 1)\<close> and \<open>overlap_ratio * 60\<close>, are rounded to the
  nearest double as the code rounds them: \<open>double\<close> below, ties to the even significand,
  subnormal numbers included; the overflow beyond the largest double is not modelled, no
  value of the scorer is near it. The sums of the rule weights are exact in the model:
  the weights are small integers, and the code rounds such a sum in its last bit when
  the skill term has a fraction. \<open>round(x, 2)\<close> rounds to the nearest multiple of 1/100,
  a tie going to the even one; the result stands for the double nearest to it.
\<close>

definition round_half_even :: "real \<Rightarrow> int" where
  "round_half_even x =
     (let f = \<lfloor>x\<rfloor>; d = x - of_int f
      in if d < 1 / 2 then f else if 1 / 2 < d then f + 1 else if even f then f else f + 1)"

definition exponent :: "real \<Rightarrow> int" where
  \<comment> \<open>the binary exponent of a positive number, \<open>2 ^ e \<le> x < 2 ^ (e + 1)\<close>, from the
      number of bits of an integer\<close>
  "exponent x =
     (if 1 \<le> x then bitlen \<lfloor>x\<rfloor> - 1 else - bitlen (\<lceil>1 / x\<rceil> - 1))"

definition double :: "real \<Rightarrow> real" where
  \<comment> \<open>the nearest binary64 number: 53 significant bits, the exponent at least -1022\<close>
  "double x =
     (if x = 0 then 0
      else
        (let e = max (exponent \<bar>x\<bar>) (- 1022); ulp = 2 powi (e - 52)
         in of_int (round_half_even (x / ulp)) * ulp))"

definition py_round :: "real \<Rightarrow> nat \<Rightarrow> real" where
  "py_round x ndigits = of_int (round_half_even (x * 10 ^ ndigits)) / 10 ^ ndigits"

section \<open>Data model\<close>

text \<open>
  The three frozen dataclasses of \<open>job_recommender.py\<close>. Field names are the source's,
  except where two records share a name: the fields \<open>id\<close>, \<open>skills\<close>, \<open>location\<close> and
  \<open>experience_level\<close> of \<open>JobPosting\<close> are \<open>job_id\<close>, \<open>job_skills\<close>, \<open>job_location\<close> and
  \<open>job_experience_level\<close> here. An \<open>Optional\<close> field is an \<open>option\<close>.
\<close>

record CandidateProfile =
  name :: string
  skills :: "string list"
  desired_titles :: "string list"
  location :: "string option"
  remote_only :: bool
  min_compensation :: "real option"
  experience_level :: "string option"
  industries :: "string list option"

record JobPosting =
  job_id :: string
  title :: string
  company :: string
  description :: string
  job_skills :: "string list"
  job_location :: "string option"
  remote :: bool
  compensation :: "real option"
  job_experience_level :: "string option"
  industry :: "string option"

record Recommendation =
  job :: JobPosting
  score :: real
  rationale :: string

section \<open>The normalizer\<close>

definition normalize_tokens :: "string list \<Rightarrow> string list" where
  \<comment> \<open>\<open>_normalize\<close>: \<open>sorted({token.strip().lower() for token in tokens
      if token and token.strip()})\<close>\<close>
  "normalize_tokens tokens =
     sorted_list_of_set
       (set (map (\<lambda>token. lower (strip token))
              (filter (\<lambda>token. token \<noteq> [] \<and> strip token \<noteq> []) tokens)))"

section \<open>The deterministic scorer\<close>

text \<open>
  \<open>_score_job\<close> threads two accumulators, \<open>score\<close> and \<open>rationale_bits\<close>, through seven
  \<open>if\<close> blocks. Each block is one function on the pair of accumulators, in the order of
  the source; \<open>score_rules\<close> is their composition from \<open>(0.0, [])\<close> and \<open>score_job\<close> adds
  the fallback rationale, the rounding and the join of the \<open>return\<close> statement.
\<close>

definition skill_rule ::
  "CandidateProfile \<Rightarrow> JobPosting \<Rightarrow> real \<times> string list \<Rightarrow> real \<times> string list" where
  "skill_rule profile posting acc =
     (let profile_skills = set (normalize_tokens (skills profile));
          posting_skills = set (normalize_tokens (job_skills posting));
          overlap = profile_skills \<inter> posting_skills
      in case acc of (subtotal, rationale_bits) \<Rightarrow>
           if overlap \<noteq> {} then
             (let overlap_ratio =
                    double (real (card overlap) / real (max (card posting_skills) 1))
              in (subtotal + double (overlap_ratio * 60),
                  rationale_bits @ [str_nat (card overlap) @ '' skill matches'']))
           else (subtotal, rationale_bits))"

definition title_rule ::
  "CandidateProfile \<Rightarrow> JobPosting \<Rightarrow> real \<times> string list \<Rightarrow> real \<times> string list" where
  "title_rule profile posting acc =
     (let wanted = set (normalize_tokens (desired_titles profile))
      in case acc of (subtotal, rationale_bits) \<Rightarrow>
           if wanted \<noteq> {} then
             (let title_tokens = set (normalize_tokens (str_split (title posting)));
                  title_overlap = wanted \<inter> title_tokens
              in if title_overlap \<noteq> {}
                 then (subtotal + 15, rationale_bits @ [''title matches target''])
                 else (subtotal, rationale_bits))
           else (subtotal, rationale_bits))"

definition remote_rule ::
  "CandidateProfile \<Rightarrow> JobPosting \<Rightarrow> real \<times> string list \<Rightarrow> real \<times> string list" where
  "remote_rule profile posting acc =
     (case acc of (subtotal, rationale_bits) \<Rightarrow>
        if remote_only profile then
          (if remote posting then (subtotal + 10, rationale_bits @ [''remote friendly''])
           else (subtotal - 20, rationale_bits @ [''not remote'']))
        else (subtotal, rationale_bits))"

definition location_rule ::
  "CandidateProfile \<Rightarrow> JobPosting \<Rightarrow> real \<times> string list \<Rightarrow> real \<times> string list" where
  "location_rule profile posting acc =
     (case acc of (subtotal, rationale_bits) \<Rightarrow>
        (case (location profile, job_location posting) of
           (Some here, Some there) \<Rightarrow>
             if here \<noteq> [] \<and> there \<noteq> [] then
               (if str_contains (lower here) (lower there)
                then (subtotal + 10, rationale_bits @ [''location match''])
                else (subtotal, rationale_bits))
             else (subtotal, rationale_bits)
         | _ \<Rightarrow> (subtotal, rationale_bits)))"

definition compensation_rule ::
  "CandidateProfile \<Rightarrow> JobPosting \<Rightarrow> real \<times> string list \<Rightarrow> real \<times> string list" where
  "compensation_rule profile posting acc =
     (case acc of (subtotal, rationale_bits) \<Rightarrow>
        (case (min_compensation profile, compensation posting) of
           (Some floor_wanted, Some offered) \<Rightarrow>
             if floor_wanted \<noteq> 0 \<and> offered \<noteq> 0 then
               (if offered \<ge> floor_wanted
                then (subtotal + 10, rationale_bits @ [''meets compensation floor''])
                else (subtotal - 10, rationale_bits @ [''below compensation target'']))
             else (subtotal, rationale_bits)
         | _ \<Rightarrow> (subtotal, rationale_bits)))"

definition experience_rule ::
  "CandidateProfile \<Rightarrow> JobPosting \<Rightarrow> real \<times> string list \<Rightarrow> real \<times> string list" where
  "experience_rule profile posting acc =
     (case acc of (subtotal, rationale_bits) \<Rightarrow>
        (case (experience_level profile, job_experience_level posting) of
           (Some mine, Some theirs) \<Rightarrow>
             if mine \<noteq> [] \<and> theirs \<noteq> [] then
               (if lower mine = lower theirs
                then (subtotal + 5, rationale_bits @ [''experience level match''])
                else (subtotal, rationale_bits))
             else (subtotal, rationale_bits)
         | _ \<Rightarrow> (subtotal, rationale_bits)))"

definition industry_rule ::
  "CandidateProfile \<Rightarrow> JobPosting \<Rightarrow> real \<times> string list \<Rightarrow> real \<times> string list" where
  "industry_rule profile posting acc =
     (case acc of (subtotal, rationale_bits) \<Rightarrow>
        (case (industries profile, industry posting) of
           (Some preferred, Some theirs) \<Rightarrow>
             if preferred \<noteq> [] \<and> theirs \<noteq> [] then
               (if lower theirs \<in> set (normalize_tokens preferred)
                then (subtotal + 5, rationale_bits @ [''industry preference''])
                else (subtotal, rationale_bits))
             else (subtotal, rationale_bits)
         | _ \<Rightarrow> (subtotal, rationale_bits)))"

definition score_rules :: "CandidateProfile \<Rightarrow> JobPosting \<Rightarrow> real \<times> string list" where
  \<comment> \<open>\<open>score\<close> and \<open>rationale_bits\<close> after the seventh rule (line 98)\<close>
  "score_rules profile posting =
     industry_rule profile posting
       (experience_rule profile posting
         (compensation_rule profile posting
           (location_rule profile posting
             (remote_rule profile posting
               (title_rule profile posting
                 (skill_rule profile posting (0, [])))))))"

definition score_job :: "CandidateProfile \<Rightarrow> JobPosting \<Rightarrow> Recommendation" where
  \<comment> \<open>\<open>_score_job\<close>\<close>
  "score_job profile posting =
     (case score_rules profile posting of (subtotal, rationale_bits) \<Rightarrow>
        \<lparr>job = posting,
         score = py_round subtotal 2,
         rationale =
           join ''; '' (if rationale_bits = [] then [''general fit''] else rationale_bits)\<rparr>)"

section \<open>Ranking\<close>

definition slice_to :: "'a list \<Rightarrow> int \<Rightarrow> 'a list" where
  \<comment> \<open>\<open>xs[:k]\<close>; a negative \<open>k\<close> counts from the end\<close>
  "slice_to xs k = (if 0 \<le> k then take (nat k) xs else take (length xs - nat (- k)) xs)"

definition sort_reverse :: "('a \<Rightarrow> 'k::linorder) \<Rightarrow> 'a list \<Rightarrow> 'a list" where
  \<comment> \<open>\<open>xs.sort(key=key, reverse=True)\<close>: the list is reversed, sorted by a stable
      ascending sort, and reversed again\<close>
  "sort_reverse key xs = rev (sort_key key (rev xs))"

definition rank_scored :: "CandidateProfile \<Rightarrow> JobPosting list \<Rightarrow> int \<Rightarrow> Recommendation list" where
  \<comment> \<open>lines 126 to 128 of \<open>recommend_jobs\<close>: the deterministic path\<close>
  "rank_scored profile jobs_list top_k =
     (let scored = map (score_job profile) jobs_list;
          scored = sort_reverse score scored
      in slice_to scored top_k)"

section \<open>The external strategy\<close>

text \<open>
  What \<open>recommend_jobs\<close> reads from outside the program is a record: the process
  environment, and the outcome of each step of \<open>_gpt_rank\<close> that leaves the program (the
  import of the client library, the construction of the client, the two requests, and
  the standard library's \<open>json.loads\<close>, \<open>float\<close> on a string and \<open>str\<close> on a value that
  is not a string). An exception is a value of type \<open>exn\<close>; \<open>ServiceError\<close> stands for
  whatever the client library raises. A decoded JSON number is an \<open>int\<close> or a finite
  \<open>float\<close>.
\<close>

datatype json =
    JNull
  | JBool bool
  | JInt int
  | JFloat real
  | JString string
  | JArray "json list"
  | JObject "(string \<times> json) list"

datatype exn = AttributeError | TypeError | ValueError | OverflowError | ServiceError

record world =
  environ :: "string \<Rightarrow> string option"
  openai_importable :: bool
  openai_client :: bool
  responses_text :: "string option"
  chat_content :: "string option option"
  json_loads :: "string \<Rightarrow> json option"
  float_of_str :: "string \<Rightarrow> real option"
  repr_json :: "json \<Rightarrow> string"

definition getenv :: "world \<Rightarrow> string \<Rightarrow> string \<Rightarrow> string" where
  "getenv w key fallback = (case environ w key of None \<Rightarrow> fallback | Some v \<Rightarrow> v)"

definition has_api_key :: "world \<Rightarrow> bool" where
  \<comment> \<open>the truth value of \<open>os.getenv("OPENAI_API_KEY")\<close>\<close>
  "has_api_key w = (case environ w ''OPENAI_API_KEY'' of None \<Rightarrow> False | Some v \<Rightarrow> v \<noteq> [])"

fun dict_get :: "json \<Rightarrow> string \<Rightarrow> json \<Rightarrow> exn + json" where
  \<comment> \<open>\<open>x.get(key, fallback)\<close>: only a dict has the method\<close>
  "dict_get (JObject kvs) key fallback =
     Inr (case map_of kvs key of None \<Rightarrow> fallback | Some v \<Rightarrow> v)"
| "dict_get _ key fallback = Inl AttributeError"

fun iterate :: "json \<Rightarrow> exn + json list" where
  \<comment> \<open>the items a \<open>for\<close> loop visits\<close>
  "iterate (JArray xs) = Inr xs"
| "iterate (JString s) = Inr (map (\<lambda>c. JString [c]) s)"
| "iterate (JObject kvs) = Inr (map (\<lambda>kv. JString (fst kv)) kvs)"
| "iterate _ = Inl TypeError"

fun lookup_get :: "(string \<Rightarrow> JobPosting option) \<Rightarrow> json \<Rightarrow> exn + JobPosting option" where
  \<comment> \<open>\<open>lookup.get(key)\<close> on a dict keyed by strings: a list or a dict is unhashable\<close>
  "lookup_get lookup (JString s) = Inr (lookup s)"
| "lookup_get lookup (JArray xs) = Inl TypeError"
| "lookup_get lookup (JObject kvs) = Inl TypeError"
| "lookup_get lookup _ = Inr None"

fun float_of_json :: "world \<Rightarrow> json \<Rightarrow> exn + real" where
  \<comment> \<open>\<open>float(x)\<close>: an integer beyond the range of a double raises\<close>
  "float_of_json w (JFloat r) = Inr r"
| "float_of_json w (JInt n) =
     (if \<bar>n\<bar> < 2 ^ 1024 - 2 ^ 970 then Inr (double (of_int n)) else Inl OverflowError)"
| "float_of_json w (JBool b) = Inr (if b then 1 else 0)"
| "float_of_json w (JString s) =
     (case float_of_str w s of None \<Rightarrow> Inl ValueError | Some r \<Rightarrow> Inr r)"
| "float_of_json w _ = Inl TypeError"

fun str_of_json :: "world \<Rightarrow> json \<Rightarrow> string" where
  "str_of_json w (JString s) = s"
| "str_of_json w v = repr_json w v"

fun gpt_items ::
  "world \<Rightarrow> (string \<Rightarrow> JobPosting option) \<Rightarrow> json list \<Rightarrow> Recommendation list
     \<Rightarrow> exn + Recommendation list" where
  \<comment> \<open>the loop of lines 182 to 192, \<open>recommendations\<close> its accumulator\<close>
  "gpt_items w lookup [] recommendations = Inr recommendations"
| "gpt_items w lookup (item # items) recommendations =
     (case dict_get item ''id'' JNull of
        Inl e \<Rightarrow> Inl e
      | Inr ident \<Rightarrow>
          (case lookup_get lookup ident of
             Inl e \<Rightarrow> Inl e
           | Inr None \<Rightarrow> gpt_items w lookup items recommendations
           | Inr (Some posting) \<Rightarrow>
               (case dict_get item ''score'' (JInt 0) of
                  Inl e \<Rightarrow> Inl e
                | Inr raw_score \<Rightarrow>
                    (case float_of_json w raw_score of
                       Inl e \<Rightarrow> Inl e
                     | Inr s \<Rightarrow>
                         (case dict_get item ''rationale'' (JString []) of
                            Inl e \<Rightarrow> Inl e
                          | Inr r \<Rightarrow>
                              gpt_items w lookup items
                                (recommendations @
                                   [\<lparr>job = posting, score = s,
                                     rationale = str_of_json w r\<rparr>]))))))"

definition job_lookup :: "JobPosting list \<Rightarrow> string \<Rightarrow> JobPosting option" where
  \<comment> \<open>\<open>{job.id: job for job in jobs}\<close>: a later posting replaces an earlier one of the
      same id\<close>
  "job_lookup jobs = foldl (\<lambda>m posting. m(job_id posting \<mapsto> posting)) Map.empty jobs"

definition gpt_text :: "world \<Rightarrow> exn + string" where
  \<comment> \<open>lines 156 to 173: the reply to the first request, and when that raises, to the
      second, \<open>content or ""\<close>\<close>
  "gpt_text w =
     (case responses_text w of
        Some text \<Rightarrow> Inr text
      | None \<Rightarrow>
          (case chat_content w of
             None \<Rightarrow> Inl ServiceError
           | Some None \<Rightarrow> Inr []
           | Some (Some text) \<Rightarrow> Inr text))"

definition gpt_rank ::
  "world \<Rightarrow> CandidateProfile \<Rightarrow> JobPosting list \<Rightarrow> int \<Rightarrow> exn + Recommendation list" where
  \<comment> \<open>\<open>_gpt_rank\<close>\<close>
  "gpt_rank w profile jobs top_k =
     (if \<not> openai_importable w then Inr []
      else if \<not> openai_client w then Inl ServiceError
      else
        (case gpt_text w of
           Inl e \<Rightarrow> Inl e
         | Inr text \<Rightarrow>
             (case json_loads w text of
                None \<Rightarrow> Inr []
              | Some data \<Rightarrow>
                  (let lookup = job_lookup jobs
                   in case dict_get data ''recommendations'' (JArray []) of
                        Inl e \<Rightarrow> Inl e
                      | Inr listed \<Rightarrow>
                          (case iterate listed of
                             Inl e \<Rightarrow> Inl e
                           | Inr items \<Rightarrow>
                               (case gpt_items w lookup items [] of
                                  Inl e \<Rightarrow> Inl e
                                | Inr recommendations \<Rightarrow>
                                    Inr (slice_to recommendations top_k)))))))"

section \<open>The strategy selector\<close>

definition resolve_use_gpt :: "world \<Rightarrow> bool option \<Rightarrow> bool" where
  \<comment> \<open>lines 114 and 115\<close>
  "resolve_use_gpt w use_gpt =
     (case use_gpt of
        None \<Rightarrow> lower (getenv w ''USE_GPT_RECOMMENDER'' ''false'') = ''true''
      | Some flag \<Rightarrow> flag)"

definition recommend_jobs ::
  "world \<Rightarrow> CandidateProfile \<Rightarrow> JobPosting list \<Rightarrow> int \<Rightarrow> bool option
     \<Rightarrow> exn + Recommendation list" where
  "recommend_jobs w profile jobs top_k use_gpt =
     (let use_gpt = resolve_use_gpt w use_gpt;
          jobs_list = jobs
      in if use_gpt \<and> has_api_key w then
           (case gpt_rank w profile jobs_list top_k of
              Inr gpt_recs \<Rightarrow>
                if gpt_recs \<noteq> [] then Inr gpt_recs
                else Inr (rank_scored profile jobs_list top_k)
            | Inl e \<Rightarrow> Inr (rank_scored profile jobs_list top_k))
         else Inr (rank_scored profile jobs_list top_k))"

definition deterministic_path ::
  "world \<Rightarrow> CandidateProfile \<Rightarrow> JobPosting list \<Rightarrow> int \<Rightarrow> bool option \<Rightarrow> bool" where
  \<comment> \<open>the call reaches line 126: the external strategy is not tried, or it raises, or it
      returns the empty list\<close>
  "deterministic_path w profile jobs top_k use_gpt =
     (\<not> (resolve_use_gpt w use_gpt \<and> has_api_key w) \<or>
      (case gpt_rank w profile jobs top_k of Inl e \<Rightarrow> True | Inr gpt_recs \<Rightarrow> gpt_recs = []))"

section \<open>Auxiliary notions and the scenarios of the specification\<close>

definition trimmed :: "string \<Rightarrow> bool" where
  \<comment> \<open>no white space at either end\<close>
  "trimmed s = (s = [] \<or> (\<not> isspace (hd s) \<and> \<not> isspace (last s)))"

definition later_rules ::
  "CandidateProfile \<Rightarrow> JobPosting \<Rightarrow> real \<times> string list \<Rightarrow> real \<times> string list" where
  \<comment> \<open>the six rules that follow the skill rule, in the order of the source\<close>
  "later_rules profile posting acc =
     industry_rule profile posting
       (experience_rule profile posting
         (compensation_rule profile posting
           (location_rule profile posting
             (remote_rule profile posting
               (title_rule profile posting acc)))))"

text \<open>
  A posting whose skill list repeats a skill and has blank entries: five entries, two
  skills. A posting with 96 skills of which a profile has 25.
\<close>

definition profile_V :: CandidateProfile where
  "profile_V = \<lparr>name = ''V'', skills = [''python''], desired_titles = [],
     location = None, remote_only = False, min_compensation = None,
     experience_level = None, industries = None\<rparr>"

definition posting_V :: JobPosting where
  "posting_V = \<lparr>job_id = ''v'', title = ''Analyst'', company = ''Acme'',
     description = [], job_skills = [''Python'', ''python '', '''', '' '', ''SQL''],
     job_location = None, remote = False, compensation = None,
     job_experience_level = None, industry = None\<rparr>"

definition profile_25 :: CandidateProfile where
  "profile_25 = \<lparr>name = ''W'', skills = map (\<lambda>n. CHR ''s'' # str_nat n) [0..<25],
     desired_titles = [], location = None, remote_only = False, min_compensation = None,
     experience_level = None, industries = None\<rparr>"

definition posting_96 :: JobPosting where
  "posting_96 = \<lparr>job_id = ''w'', title = ''Analyst'', company = ''Acme'',
     description = [], job_skills = map (\<lambda>n. CHR ''s'' # str_nat n) [0..<96],
     job_location = None, remote = False, compensation = None,
     job_experience_level = None, industry = None\<rparr>"

text \<open>Scenario A of the specification: two of two skills and the title match.\<close>

definition profile_A :: CandidateProfile where
  "profile_A = \<lparr>name = ''A'', skills = [''python'', ''sql''], desired_titles = [''engineer''],
     location = None, remote_only = False, min_compensation = None,
     experience_level = None, industries = None\<rparr>"

definition posting_A :: JobPosting where
  "posting_A = \<lparr>job_id = ''a'', title = ''Backend Engineer'', company = ''Acme'',
     description = [], job_skills = [''python'', ''sql''], job_location = None,
     remote = False, compensation = None, job_experience_level = None, industry = None\<rparr>"

text \<open>Scenario C of the specification: the offer is below the floor, nothing else matches.\<close>

definition profile_C :: CandidateProfile where
  "profile_C = \<lparr>name = ''C'', skills = [], desired_titles = [],
     location = None, remote_only = False, min_compensation = Some 100000,
     experience_level = None, industries = None\<rparr>"

definition posting_C :: JobPosting where
  "posting_C = \<lparr>job_id = ''c'', title = ''Analyst'', company = ''Acme'',
     description = [], job_skills = [], job_location = None,
     remote = False, compensation = Some 80000, job_experience_level = None, industry = None\<rparr>"

text \<open>The two penalties and nothing else; every bonus with all skills of the posting covered.\<close>

definition profile_min :: CandidateProfile where
  "profile_min = \<lparr>name = ''M'', skills = [], desired_titles = [],
     location = None, remote_only = True, min_compensation = Some 100000,
     experience_level = None, industries = None\<rparr>"

definition posting_min :: JobPosting where
  "posting_min = \<lparr>job_id = ''m'', title = ''Analyst'', company = ''Acme'',
     description = [], job_skills = [], job_location = None,
     remote = False, compensation = Some 80000, job_experience_level = None, industry = None\<rparr>"

definition profile_max :: CandidateProfile where
  "profile_max = \<lparr>name = ''X'', skills = [''python'', ''sql'', ''go''],
     desired_titles = [''engineer''], location = Some ''Berlin'', remote_only = True,
     min_compensation = Some 100000, experience_level = Some ''Senior'',
     industries = Some [''FinTech'']\<rparr>"

definition posting_max :: JobPosting where
  "posting_max = \<lparr>job_id = ''x'', title = ''Backend Engineer'', company = ''Acme'',
     description = [], job_skills = [''Python'', '' SQL''], job_location = Some ''Berlin, Germany'',
     remote = True, compensation = Some 120000, job_experience_level = Some ''senior'',
     industry = Some ''fintech''\<rparr>"


text \<open>
  Three worlds. In \<open>world_gpt\<close> the external strategy is switched on by the environment and
  answers with two entries, the first for an id that no posting has. In \<open>world_malformed\<close>
  the reply decodes to a list, so \<open>data.get\<close> raises. In \<open>world_no_key\<close> the flag is set
  and the credential is absent.
\<close>

definition world_gpt :: world where
  "world_gpt =
     \<lparr>environ = (\<lambda>key. if key = ''OPENAI_API_KEY'' then Some ''sk-test''
                       else if key = ''USE_GPT_RECOMMENDER'' then Some ''True'' else None),
      openai_importable = True,
      openai_client = True,
      responses_text = Some ''reply'',
      chat_content = None,
      json_loads = (\<lambda>text. Some (JObject [(''recommendations'',
         JArray [JObject [(''id'', JString ''zzz''), (''score'', JInt 7)],
                 JObject [(''id'', JString ''a''), (''score'', JInt 9),
                          (''rationale'', JString ''fit'')]])])),
      float_of_str = (\<lambda>text. None),
      repr_json = (\<lambda>v. [])\<rparr>"

definition world_malformed :: world where
  "world_malformed = world_gpt\<lparr>json_loads := (\<lambda>text. Some (JArray []))\<rparr>"

definition world_no_key :: world where
  "world_no_key = world_gpt\<lparr>environ := (\<lambda>key. if key = ''USE_GPT_RECOMMENDER'' then Some ''True'' else None)\<rparr>"

definition three_jobs :: "JobPosting list" where
  "three_jobs = [posting_C, posting_A, posting_min]"

section \<open>Properties of the normalizer\<close>

lemma isspace_lower_char: "isspace (lower_char c) = isspace c"
  by (simp add: isspace_def lower_char_def Let_def)

lemma lower_char_idem: "lower_char (lower_char c) = lower_char c"
  by (simp add: lower_char_def Let_def)

lemma lower_idem: "lower (lower s) = lower s"
  by (simp add: lower_def lower_char_idem)

lemma lower_Nil_iff: "lower s = [] \<longleftrightarrow> s = []"
  by (simp add: lower_def)

lemma last_dropWhile_keep: "dropWhile P xs \<noteq> [] \<Longrightarrow> last (dropWhile P xs) = last xs"
  by (induction xs) (auto split: if_splits)

lemma trimmed_strip: "trimmed (strip s)"
proof (cases "strip s = []")
  case True
  then show ?thesis by (simp add: trimmed_def)
next
  case False
  define a where "a = dropWhile isspace s"
  define b where "b = dropWhile isspace (rev a)"
  have sb: "strip s = rev b" by (simp add: strip_def a_def b_def)
  with False have b: "b \<noteq> []" by simp
  then have "rev a \<noteq> []" by (auto simp: b_def)
  then have a: "a \<noteq> []" by simp
  have "\<not> isspace (hd b)" using b unfolding b_def by (rule hd_dropWhile)
  then have l: "\<not> isspace (last (rev b))" using b by (simp add: last_rev)
  have "last b = last (rev a)" using b unfolding b_def by (rule last_dropWhile_keep)
  also have "\<dots> = hd a" using a by (simp add: last_rev)
  finally have "hd (rev b) = hd a" using b by (simp add: hd_rev)
  moreover have "\<not> isspace (hd a)" using a unfolding a_def by (rule hd_dropWhile)
  ultimately show ?thesis using l by (simp add: trimmed_def sb)
qed

lemma strip_trimmed: "trimmed s \<Longrightarrow> strip s = s"
proof (cases s)
  case Nil
  then show ?thesis by (simp add: strip_def)
next
  case (Cons c cs)
  assume "trimmed s"
  with Cons have h: "\<not> isspace (hd s)" and l: "\<not> isspace (last s)" and ne: "s \<noteq> []"
    by (auto simp: trimmed_def)
  from h ne have 1: "dropWhile isspace s = s" by (cases s) auto
  from l ne have "\<not> isspace (hd (rev s))" by (simp add: hd_rev)
  with ne have 2: "dropWhile isspace (rev s) = rev s" by (cases "rev s") auto
  show ?thesis by (simp add: strip_def 1 2)
qed

lemma trimmed_lower: "trimmed s \<Longrightarrow> trimmed (lower s)"
  by (auto simp: trimmed_def lower_def hd_map last_map isspace_lower_char)

lemma strip_lower_strip: "strip (lower (strip s)) = lower (strip s)"
  by (rule strip_trimmed) (rule trimmed_lower [OF trimmed_strip])

lemma set_normalize_tokens:
  "set (normalize_tokens tokens) = {lower (strip t) | t. t \<in> set tokens \<and> strip t \<noteq> []}"
proof -
  have "strip t \<noteq> [] \<Longrightarrow> t \<noteq> []" for t by (auto simp: strip_def)
  then show ?thesis by (auto simp: normalize_tokens_def)
qed

lemma normalize_tokens_elem:
  assumes "x \<in> set (normalize_tokens tokens)"
  shows "x \<noteq> []" and "strip x = x" and "lower x = x"
proof -
  from assms obtain t where x: "x = lower (strip t)" and t: "strip t \<noteq> []"
    by (auto simp: set_normalize_tokens)
  show "x \<noteq> []" using t by (simp add: x lower_Nil_iff)
  show "strip x = x" by (simp add: x strip_lower_strip)
  show "lower x = x" by (simp add: x lower_idem)
qed

text \<open>
  C6. For every sequence of strings the normalizer returns a list without duplicates,
  sorted in the lexicographic order of strings, that holds exactly the trimmed and
  lower-cased forms of the entries that are not empty or white space only; every member
  is non-empty, already trimmed and already lower case. On
  \<open>["Python", "python", " PYTHON "]\<close> it returns \<open>["python"]\<close>. The function is total: it
  has a value on every input.
\<close>

theorem normalize_tokens_contract:
  "distinct (normalize_tokens tokens) \<and> sorted (normalize_tokens tokens) \<and>
   set (normalize_tokens tokens) = {lower (strip t) | t. t \<in> set tokens \<and> strip t \<noteq> []} \<and>
   (\<forall>x \<in> set (normalize_tokens tokens). x \<noteq> [] \<and> strip x = x \<and> lower x = x) \<and>
   normalize_tokens [''Python'', ''python'', '' PYTHON ''] = [''python'']"
proof -
  have ex: "normalize_tokens [''Python'', ''python'', '' PYTHON ''] = [''python'']"
    by code_simp
  have "distinct (normalize_tokens tokens)" "sorted (normalize_tokens tokens)"
    by (simp_all add: normalize_tokens_def)
  then show ?thesis
    using set_normalize_tokens normalize_tokens_elem ex by blast
qed

theorem normalize_tokens_contract_witness:
  "normalize_tokens [''b'', '' A'', '''', ''  '', ''a '', ''B''] = [''a'', ''b''] \<and>
   distinct (normalize_tokens [''b'', '' A'', '''', ''  '', ''a '', ''B'']) \<and>
   sorted (normalize_tokens [''b'', '' A'', '''', ''  '', ''a '', ''B'']) \<and>
   strip ''a'' = ''a'' \<and> lower ''b'' = ''b''"
proof -
  have v: "normalize_tokens [''b'', '' A'', '''', ''  '', ''a '', ''B''] = [''a'', ''b'']"
    by code_simp
  have "''a'' \<in> set (normalize_tokens [''b'', '' A'', '''', ''  '', ''a '', ''B''])"
    and "''b'' \<in> set (normalize_tokens [''b'', '' A'', '''', ''  '', ''a '', ''B''])"
    by (simp_all add: v)
  then show ?thesis
    using v normalize_tokens_contract [of "[''b'', '' A'', '''', ''  '', ''a '', ''B'']"]
    by blast
qed

text \<open>
  C7. The normalizer is idempotent: applied to its own output it returns that output
  unchanged.
\<close>

theorem normalize_tokens_idempotent:
  "normalize_tokens (normalize_tokens tokens) = normalize_tokens tokens"
proof -
  let ?out = "normalize_tokens tokens"
  have keep: "filter (\<lambda>token. token \<noteq> [] \<and> strip token \<noteq> []) ?out = ?out"
    by (rule filter_True) (metis normalize_tokens_elem(1,2))
  have same: "map (\<lambda>token. lower (strip token)) ?out = ?out"
    by (rule map_idI) (simp add: normalize_tokens_elem)
  have "normalize_tokens ?out = sorted_list_of_set (set ?out)"
    unfolding normalize_tokens_def [of ?out] keep same ..
  also have "\<dots> = ?out"
    by (simp add: normalize_tokens_def)
  finally show ?thesis .
qed

section \<open>Properties of the scorer\<close>

lemma skill_rule_additive:
  "skill_rule profile posting (s, bits) =
     (s + fst (skill_rule profile posting (0, [])), bits @ snd (skill_rule profile posting (0, [])))"
  by (simp add: skill_rule_def Let_def)

lemma title_rule_additive:
  "title_rule profile posting (s, bits) =
     (s + fst (title_rule profile posting (0, [])), bits @ snd (title_rule profile posting (0, [])))"
  by (simp add: title_rule_def Let_def)

lemma remote_rule_additive:
  "remote_rule profile posting (s, bits) =
     (s + fst (remote_rule profile posting (0, [])), bits @ snd (remote_rule profile posting (0, [])))"
  by (simp add: remote_rule_def)

lemma location_rule_additive:
  "location_rule profile posting (s, bits) =
     (s + fst (location_rule profile posting (0, [])), bits @ snd (location_rule profile posting (0, [])))"
  by (simp add: location_rule_def split: option.splits)

lemma compensation_rule_additive:
  "compensation_rule profile posting (s, bits) =
     (s + fst (compensation_rule profile posting (0, [])),
      bits @ snd (compensation_rule profile posting (0, [])))"
  by (simp add: compensation_rule_def split: option.splits)

lemma experience_rule_additive:
  "experience_rule profile posting (s, bits) =
     (s + fst (experience_rule profile posting (0, [])),
      bits @ snd (experience_rule profile posting (0, [])))"
  by (simp add: experience_rule_def split: option.splits)

lemma industry_rule_additive:
  "industry_rule profile posting (s, bits) =
     (s + fst (industry_rule profile posting (0, [])),
      bits @ snd (industry_rule profile posting (0, [])))"
  by (simp add: industry_rule_def split: option.splits)

lemma score_rules_sum:
  "score_rules profile posting =
     (fst (skill_rule profile posting (0, [])) + fst (title_rule profile posting (0, []))
        + fst (remote_rule profile posting (0, [])) + fst (location_rule profile posting (0, []))
        + fst (compensation_rule profile posting (0, []))
        + fst (experience_rule profile posting (0, []))
        + fst (industry_rule profile posting (0, [])),
      snd (skill_rule profile posting (0, [])) @ snd (title_rule profile posting (0, []))
        @ snd (remote_rule profile posting (0, [])) @ snd (location_rule profile posting (0, []))
        @ snd (compensation_rule profile posting (0, []))
        @ snd (experience_rule profile posting (0, []))
        @ snd (industry_rule profile posting (0, [])))"
proof -
  obtain s1 b1 where 1: "skill_rule profile posting (0, []) = (s1, b1)" by force
  obtain s2 b2 where 2: "title_rule profile posting (0, []) = (s2, b2)" by force
  obtain s3 b3 where 3: "remote_rule profile posting (0, []) = (s3, b3)" by force
  obtain s4 b4 where 4: "location_rule profile posting (0, []) = (s4, b4)" by force
  obtain s5 b5 where 5: "compensation_rule profile posting (0, []) = (s5, b5)" by force
  obtain s6 b6 where 6: "experience_rule profile posting (0, []) = (s6, b6)" by force
  obtain s7 b7 where 7: "industry_rule profile posting (0, []) = (s7, b7)" by force
  have a: "title_rule profile posting (s1, b1) = (s1 + s2, b1 @ b2)"
    by (subst title_rule_additive) (simp add: 2)
  have b: "remote_rule profile posting (s1 + s2, b1 @ b2) = (s1 + s2 + s3, b1 @ b2 @ b3)"
    by (subst remote_rule_additive) (simp add: 3)
  have c: "location_rule profile posting (s1 + s2 + s3, b1 @ b2 @ b3)
             = (s1 + s2 + s3 + s4, b1 @ b2 @ b3 @ b4)"
    by (subst location_rule_additive) (simp add: 4)
  have d: "compensation_rule profile posting (s1 + s2 + s3 + s4, b1 @ b2 @ b3 @ b4)
             = (s1 + s2 + s3 + s4 + s5, b1 @ b2 @ b3 @ b4 @ b5)"
    by (subst compensation_rule_additive) (simp add: 5)
  have e: "experience_rule profile posting (s1 + s2 + s3 + s4 + s5, b1 @ b2 @ b3 @ b4 @ b5)
             = (s1 + s2 + s3 + s4 + s5 + s6, b1 @ b2 @ b3 @ b4 @ b5 @ b6)"
    by (subst experience_rule_additive) (simp add: 6)
  have f: "industry_rule profile posting
             (s1 + s2 + s3 + s4 + s5 + s6, b1 @ b2 @ b3 @ b4 @ b5 @ b6)
             = (s1 + s2 + s3 + s4 + s5 + s6 + s7, b1 @ b2 @ b3 @ b4 @ b5 @ b6 @ b7)"
    by (subst industry_rule_additive) (simp add: 7)
  show ?thesis
    unfolding score_rules_def 1 a b c d e f 2 3 4 5 6 7 by simp
qed

lemma normalize_tokens_Nil: "normalize_tokens [] = []"
  by (simp add: normalize_tokens_def)

lemma skill_rule_no_skills: "skill_rule (profile\<lparr>skills := []\<rparr>) posting acc = acc"
  by (simp add: skill_rule_def normalize_tokens_Nil split: prod.splits)


lemma card_normalize_tokens_plain:
  assumes "distinct (map (\<lambda>t. lower (strip t)) tokens)"
    and "\<And>t. t \<in> set tokens \<Longrightarrow> strip t \<noteq> []"
  shows "card (set (normalize_tokens tokens)) = length tokens"
proof -
  have "set (normalize_tokens tokens) = set (map (\<lambda>t. lower (strip t)) tokens)"
    using assms(2) by (auto simp: set_normalize_tokens)
  then have "card (set (normalize_tokens tokens)) = length (map (\<lambda>t. lower (strip t)) tokens)"
    using assms(1) by (simp only: distinct_card)
  then show ?thesis by simp
qed

lemma score_rules_later:
  "score_rules profile posting = later_rules profile posting (skill_rule profile posting (0, []))"
  by (simp add: score_rules_def later_rules_def)

text \<open>
  C4, with the divisor of the source. \<open>overlap\<close> is the intersection of the normalized skills of the profile and
  of the posting, \<open>required\<close> the normalized skills of the posting. The skill rule runs
  first, on the score 0.0 and no fragments. When \<open>overlap\<close> is not empty it adds
  \<open>(|overlap| / max(|required|, 1)) * 60\<close>, quotient and product each rounded to a double as
  the code computes them, and appends \<open><n> skill matches\<close>, \<open>n\<close> the size of \<open>overlap\<close>: the
  six later rules run on from that score and that one fragment, and the fragment stands
  first in the rationale, before the fragments of the same profile without skills. When
  \<open>overlap\<close> is empty the rule leaves score and fragments as they are, and the result is
  that of the profile without skills. The divisor is the size of the normalized set
  (\<open>len(job_skills)\<close> in the source), not the length of the list \<open>job.skills\<close>: the two
  differ when entries are blank or repeat a skill (\<open>card_normalize_tokens_plain\<close> is the
  case where they agree).
\<close>

theorem skill_overlap_rule:
  "(let overlap = set (normalize_tokens (skills profile))
                    \<inter> set (normalize_tokens (job_skills posting));
        required = set (normalize_tokens (job_skills posting));
        points = double (double (real (card overlap) / real (max (card required) 1)) * 60);
        fragment = str_nat (card overlap) @ '' skill matches'';
        without = score_rules (profile\<lparr>skills := []\<rparr>) posting
    in if overlap \<noteq> {} then
         skill_rule profile posting (0, []) = (points, [fragment]) \<and>
         score_rules profile posting = later_rules profile posting (points, [fragment]) \<and>
         snd (score_rules profile posting) = fragment # snd without
       else
         skill_rule profile posting (0, []) = (0, []) \<and>
         score_rules profile posting = without)"
proof -
  let ?ov = "set (normalize_tokens (skills profile)) \<inter> set (normalize_tokens (job_skills posting))"
  let ?p0 = "profile\<lparr>skills := []\<rparr>"
  have rest: "title_rule ?p0 posting = title_rule profile posting"
    "remote_rule ?p0 posting = remote_rule profile posting"
    "location_rule ?p0 posting = location_rule profile posting"
    "compensation_rule ?p0 posting = compensation_rule profile posting"
    "experience_rule ?p0 posting = experience_rule profile posting"
    "industry_rule ?p0 posting = industry_rule profile posting"
    by (simp_all add: fun_eq_iff title_rule_def remote_rule_def location_rule_def
        compensation_rule_def experience_rule_def industry_rule_def)
  have bits: "snd (score_rules profile posting)
                = snd (skill_rule profile posting (0, [])) @ snd (score_rules ?p0 posting)"
    unfolding score_rules_sum [of profile] score_rules_sum [of ?p0] rest skill_rule_no_skills
    by simp
  have idle: "skill_rule profile posting (0, []) = (0, []) \<Longrightarrow>
                score_rules profile posting = score_rules ?p0 posting"
    unfolding score_rules_sum [of profile] score_rules_sum [of ?p0] rest skill_rule_no_skills
    by simp
  show ?thesis
  proof (cases "?ov = {}")
    case True
    then have "skill_rule profile posting (0, []) = (0, [])"
      by (simp add: skill_rule_def Let_def)
    with True idle show ?thesis by (simp add: Let_def)
  next
    case False
    then have first: "skill_rule profile posting (0, []) =
        (double (double (real (card ?ov)
           / real (max (card (set (normalize_tokens (job_skills posting)))) 1)) * 60),
         [str_nat (card ?ov) @ '' skill matches''])"
      by (simp add: skill_rule_def Let_def)
    show ?thesis
      using False bits score_rules_later [of profile posting]
      by (simp add: Let_def first)
  qed
qed

theorem skill_overlap_rule_witness:
  "skill_rule profile_A posting_A (0, []) = (60, [''2 skill matches'']) \<and>
   score_rules profile_A posting_A = (75, [''2 skill matches'', ''title matches target'']) \<and>
   skill_rule profile_25 posting_96 (0, []) = (15.625 + 1 / 2 ^ 49, [''25 skill matches'']) \<and>
   score (score_job profile_25 posting_96) = 15.63 \<and>
   skill_rule profile_C posting_C (0, []) = (0, [])"
proof -
  have a1: "card (set (normalize_tokens (skills profile_A))
              \<inter> set (normalize_tokens (job_skills posting_A))) = 2"
    by code_simp
  have a2: "card (set (normalize_tokens (job_skills posting_A))) = 2"
    by code_simp
  have a3: "double (double 1 * 60) = 60" "str_nat 2 = ''2''"
    by code_simp+
  have a4: "later_rules profile_A posting_A (60, [''2 skill matches''])
              = (75, [''2 skill matches'', ''title matches target''])"
    by code_simp
  have a5: "set (normalize_tokens (skills profile_A))
              \<inter> set (normalize_tokens (job_skills posting_A)) \<noteq> {}"
    using a1 by auto
  have a: "skill_rule profile_A posting_A (0, []) = (60, [''2 skill matches''])"
    "score_rules profile_A posting_A = (75, [''2 skill matches'', ''title matches target''])"
    using skill_overlap_rule [of profile_A posting_A] a5
    by (simp_all add: Let_def a1 a2 a3 a4)
  have b1: "card (set (normalize_tokens (skills profile_25))
              \<inter> set (normalize_tokens (job_skills posting_96))) = 25"
    by code_simp
  have b2: "card (set (normalize_tokens (job_skills posting_96))) = 96"
    by code_simp
  have b3: "double (double (25 / 96) * 60) = 15.625 + 1 / 2 ^ 49" "str_nat 25 = ''25''"
    by code_simp+
  have b5: "set (normalize_tokens (skills profile_25))
              \<inter> set (normalize_tokens (job_skills posting_96)) \<noteq> {}"
    using b1 by auto
  have b: "skill_rule profile_25 posting_96 (0, []) = (15.625 + 1 / 2 ^ 49, [''25 skill matches''])"
    using skill_overlap_rule [of profile_25 posting_96] b5
    by (simp add: Let_def b1 b2 b3)
  have c1: "set (normalize_tokens (skills profile_C))
              \<inter> set (normalize_tokens (job_skills posting_C)) = {}"
    by code_simp
  have c: "skill_rule profile_C posting_C (0, []) = (0, [])"
    using skill_overlap_rule [of profile_C posting_C] c1 by (simp add: Let_def)
  have b4: "later_rules profile_25 posting_96 acc = acc" for acc
    by (cases acc)
      (simp add: later_rules_def title_rule_def remote_rule_def location_rule_def
        compensation_rule_def experience_rule_def industry_rule_def
        profile_25_def posting_96_def normalize_tokens_Nil)
  have b6: "py_round (double (double (25 / 96) * 60)) 2 = 15.63"
    by code_simp
  have "score_rules profile_25 posting_96
          = (double (double (25 / 96) * 60), [''25 skill matches''])"
    using skill_overlap_rule [of profile_25 posting_96] b5
    by (simp add: Let_def b1 b2 b3(2) b4)
  then have d: "score (score_job profile_25 posting_96) = 15.63"
    using b6 by (simp add: score_job_def)
  show ?thesis using a b c d by simp
qed

text \<open>
  With the length of the list \<open>job.skills\<close> as the divisor the amount is another one: for
  the five entries \<open>Python\<close>, \<open>python \<close>, the empty string, a blank and \<open>SQL\<close>, and a
  profile with \<open>python\<close>, the rule adds 30 (one of two skills) and the formula with the
  divisor 5 gives 12.
\<close>

theorem skill_overlap_raw_length_counterexample:
  "card (set (normalize_tokens (skills profile_V))
           \<inter> set (normalize_tokens (job_skills posting_V))) = 1 \<and>
   length (job_skills posting_V) = 5 \<and>
   card (set (normalize_tokens (job_skills posting_V))) = 2 \<and>
   skill_rule profile_V posting_V (0, []) = (30, [''1 skill matches'']) \<and>
   score (score_job profile_V posting_V) = 30 \<and>
   double (double (real (card (set (normalize_tokens (skills profile_V))
                                 \<inter> set (normalize_tokens (job_skills posting_V))))
                    / real (max (length (job_skills posting_V)) 1)) * 60) = 12 \<and>
   fst (skill_rule profile_V posting_V (0, []))
     \<noteq> double (double (real (card (set (normalize_tokens (skills profile_V))
                                 \<inter> set (normalize_tokens (job_skills posting_V))))
                    / real (max (length (job_skills posting_V)) 1)) * 60)"
proof -
  have 1: "card (set (normalize_tokens (skills profile_V))
           \<inter> set (normalize_tokens (job_skills posting_V))) = 1"
    by code_simp
  have 2: "length (job_skills posting_V) = 5"
    by (simp add: posting_V_def)
  have 3: "card (set (normalize_tokens (job_skills posting_V))) = 2"
    by code_simp
  have 4: "skill_rule profile_V posting_V (0, []) = (30, [''1 skill matches''])"
    by code_simp
  have 5: "score (score_job profile_V posting_V) = 30"
    by code_simp
  have 6: "double (double (real 1 / real (max 5 1)) * 60) = 12"
    by code_simp
  show ?thesis
    unfolding 1 2 3 4 5 using 6 by simp
qed



section \<open>Range and monotonicity of the score\<close>

lemma round_half_even_cases: "round_half_even x = \<lfloor>x\<rfloor> \<or> round_half_even x = \<lfloor>x\<rfloor> + 1"
  by (simp add: round_half_even_def Let_def)

lemma round_half_even_of_int: "round_half_even (of_int n) = n"
  by (simp add: round_half_even_def)

lemma round_half_even_mono:
  assumes "x \<le> y"
  shows "round_half_even x \<le> round_half_even y"
proof (cases "\<lfloor>x\<rfloor> = \<lfloor>y\<rfloor>")
  case True
  then have "x - of_int \<lfloor>x\<rfloor> \<le> y - of_int \<lfloor>y\<rfloor>" using assms by simp
  then show ?thesis
    using True by (auto simp: round_half_even_def Let_def)
next
  case False
  have "\<lfloor>x\<rfloor> \<le> \<lfloor>y\<rfloor>" using assms by (rule floor_mono)
  with False have "\<lfloor>x\<rfloor> + 1 \<le> \<lfloor>y\<rfloor>" by simp
  moreover have "round_half_even x \<le> \<lfloor>x\<rfloor> + 1"
    using round_half_even_cases [of x] by auto
  moreover have "\<lfloor>y\<rfloor> \<le> round_half_even y"
    using round_half_even_cases [of y] by auto
  ultimately show ?thesis by linarith
qed

lemma py_round_mono: "x \<le> y \<Longrightarrow> py_round x n \<le> py_round y n"
proof -
  assume "x \<le> y"
  then have "x * 10 ^ n \<le> y * 10 ^ n" by (simp add: mult_right_mono)
  then have "round_half_even (x * 10 ^ n) \<le> round_half_even (y * 10 ^ n)"
    by (rule round_half_even_mono)
  then show ?thesis by (simp add: py_round_def divide_right_mono)
qed

lemma py_round_of_int: "py_round (of_int k) n = of_int k"
proof -
  have "of_int k * (10::real) ^ n = of_int (k * 10 ^ n)" by simp
  then have "round_half_even (of_int k * 10 ^ n) = k * 10 ^ n"
    by (simp only: round_half_even_of_int)
  then show ?thesis by (simp add: py_round_def)
qed

lemma exponent_bounds:
  assumes "0 < x"
  shows "2 powi exponent x \<le> x" and "x < 2 powi (exponent x + 1)"
proof -
  have "2 powi exponent x \<le> x \<and> x < 2 powi (exponent x + 1)"
  proof (cases "1 \<le> x")
    case True
    define N where "N = \<lfloor>x\<rfloor>"
    define l where "l = nat (bitlen N)"
    have N: "0 < N" using True by (simp add: N_def)
    have "bitlen N \<noteq> 0" using N by (simp add: bitlen_eq_zero_iff)
    with bitlen_nonneg [of N] have bl: "1 \<le> bitlen N" by linarith
    then have l1: "nat (bitlen N - 1) = l - 1" by (simp add: l_def nat_diff_distrib)
    have b: "2 ^ (l - 1) \<le> N" "N < 2 ^ l"
      using bitlen_bounds [of N] N unfolding l1 l_def by simp_all
    have l: "0 < l" using b(2) N by (cases l) auto
    have "bitlen N = int l" by (simp add: l_def bitlen_nonneg)
    then have e: "exponent x = int l - 1" using True by (simp add: exponent_def N_def)
    have Nx: "of_int N \<le> x" "x < of_int N + 1"
      by (simp_all add: N_def)
    have c1: "(of_int (2 ^ (l - 1)) :: real) \<le> of_int N"
      using b(1) by (rule iffD2 [OF of_int_le_iff])
    have c2: "(of_int (2 ^ (l - 1)) :: real) = 2 ^ (l - 1)" by simp
    have lo: "(2::real) ^ (l - 1) \<le> x" using c1 c2 Nx(1) by linarith
    have "N + 1 \<le> 2 ^ l" using b(2) by simp
    then have c3: "(of_int (N + 1) :: real) \<le> of_int (2 ^ l)"
      by (rule iffD2 [OF of_int_le_iff])
    have c4: "(of_int (2 ^ l) :: real) = 2 ^ l" "(of_int (N + 1) :: real) = of_int N + 1"
      by simp_all
    have hi: "x < (2::real) ^ l" using c3 c4 Nx(2) by linarith
    have "nat (int l - 1) = l - 1" by simp
    then have p1: "(2::real) powi (int l - 1) = 2 ^ (l - 1)"
      using l by (simp add: power_int_def)
    have p2: "(2::real) powi (int l - 1 + 1) = 2 ^ l"
      by (simp add: power_int_def)
    show ?thesis unfolding e p1 p2 using lo hi by simp
  next
    case False
    define y where "y = 1 / x"
    have y: "1 < y" using False assms by (simp add: y_def)
    define M where "M = \<lceil>y\<rceil> - 1"
    define l where "l = nat (bitlen M)"
    have M: "0 < M" unfolding M_def using y by linarith
    have My: "of_int M < y" "y \<le> of_int M + 1"
      unfolding M_def by linarith+
    have "bitlen M \<noteq> 0" using M by (simp add: bitlen_eq_zero_iff)
    with bitlen_nonneg [of M] have bl: "1 \<le> bitlen M" by linarith
    then have l1: "nat (bitlen M - 1) = l - 1" by (simp add: l_def nat_diff_distrib)
    have b: "2 ^ (l - 1) \<le> M" "M < 2 ^ l"
      using bitlen_bounds [of M] M unfolding l1 l_def by simp_all
    have "bitlen M = int l" by (simp add: l_def bitlen_nonneg)
    then have e: "exponent x = - int l" using False by (simp add: exponent_def M_def y_def)
    have "M + 1 \<le> 2 ^ l" using b(2) by simp
    then have c3: "(of_int (M + 1) :: real) \<le> of_int (2 ^ l)"
      by (rule iffD2 [OF of_int_le_iff])
    have c4: "(of_int (2 ^ l) :: real) = 2 ^ l" "(of_int (M + 1) :: real) = of_int M + 1"
      by simp_all
    have "y \<le> 2 ^ l" using c3 c4 My(2) by linarith
    then have "1 / 2 ^ l \<le> 1 / y" using y by (intro divide_left_mono) auto
    then have lo: "1 / 2 ^ l \<le> x" using assms by (simp add: y_def)
    have c1: "(of_int (2 ^ (l - 1)) :: real) \<le> of_int M"
      using b(1) by (rule iffD2 [OF of_int_le_iff])
    have c2: "(of_int (2 ^ (l - 1)) :: real) = 2 ^ (l - 1)" by simp
    have "(2::real) ^ (l - 1) < y" using c1 c2 My(1) by linarith
    then have "1 / y < 1 / 2 ^ (l - 1)" using y by (simp add: frac_less2)
    then have hi: "x < 1 / 2 ^ (l - 1)" using assms by (simp add: y_def)
    have l: "0 < l" using b(2) M by (cases l) auto
    have p1: "(2::real) powi (- int l) = 1 / 2 ^ l"
      by (simp add: power_int_def power_one_over)
    have "- int l + 1 = - int (l - 1)" using l by simp
    then have p2: "(2::real) powi (- int l + 1) = 1 / 2 ^ (l - 1)"
      by (simp add: power_int_def power_one_over del: of_nat_diff)
    show ?thesis unfolding e p1 p2 using lo hi by simp
  qed
  then show "2 powi exponent x \<le> x" and "x < 2 powi (exponent x + 1)" by simp_all
qed

lemma exponent_mono:
  assumes "0 < x" and "x \<le> y"
  shows "exponent x \<le> exponent y"
proof -
  have "2 powi exponent x \<le> x" using assms(1) by (rule exponent_bounds)
  also have "x \<le> y" by fact
  also have "y < 2 powi (exponent y + 1)" using assms by (intro exponent_bounds) simp
  finally have "(2::real) powi exponent x < 2 powi (exponent y + 1)" .
  then have "\<not> exponent y + 1 \<le> exponent x"
    using power_int_increasing [of "exponent y + 1" "exponent x" "2::real"] by auto
  then show ?thesis by simp
qed

lemma round_half_even_nonneg: "0 \<le> x \<Longrightarrow> 0 \<le> round_half_even x"
  using round_half_even_mono [of 0 x] round_half_even_of_int [of 0] by simp

lemma double_zero: "double 0 = 0"
  by (simp add: double_def)

lemma double_nonneg: "0 \<le> x \<Longrightarrow> 0 \<le> double x"
proof (cases "x = 0")
  case True
  then show ?thesis by (simp add: double_def)
next
  case False
  assume "0 \<le> x"
  define u :: real where "u = 2 powi (max (exponent \<bar>x\<bar>) (- 1022) - 52)"
  have u: "0 < u" by (simp add: u_def)
  then have "0 \<le> x / u" using \<open>0 \<le> x\<close> by simp
  then have "0 \<le> round_half_even (x / u)" by (rule round_half_even_nonneg)
  then have "0 \<le> of_int (round_half_even (x / u)) * u" using u by simp
  then show ?thesis using False by (simp add: double_def Let_def u_def)
qed

lemma double_mono:
  assumes "0 \<le> x" and "x \<le> y"
  shows "double x \<le> double y"
proof (cases "x = 0")
  case True
  then show ?thesis using assms double_nonneg [of y] by (simp add: double_zero)
next
  case False
  with assms have x: "0 < x" and y: "0 < y" by simp_all
  define ex where "ex = max (exponent x) (- 1022)"
  define ey where "ey = max (exponent y) (- 1022)"
  define ux :: real where "ux = 2 powi (ex - 52)"
  define uy :: real where "uy = 2 powi (ey - 52)"
  have dx: "double x = of_int (round_half_even (x / ux)) * ux"
    using x by (simp add: double_def Let_def ux_def ex_def)
  have dy: "double y = of_int (round_half_even (y / uy)) * uy"
    using y by (simp add: double_def Let_def uy_def ey_def)
  have ux: "0 < ux" and uy: "0 < uy" by (simp_all add: ux_def uy_def)
  have le: "ex \<le> ey"
    using exponent_mono [OF x assms(2)] by (simp add: ex_def ey_def)
  show ?thesis
  proof (cases "ex = ey")
    case True
    then have same: "uy = ux" by (simp add: ux_def uy_def)
    have "x / ux \<le> y / ux" using assms(2) ux by (simp add: divide_right_mono)
    then have "round_half_even (x / ux) \<le> round_half_even (y / ux)"
      by (rule round_half_even_mono)
    then have "of_int (round_half_even (x / ux)) * ux \<le> of_int (round_half_even (y / ux)) * ux"
      using ux by (simp add: mult_right_mono)
    then show ?thesis by (simp add: dx dy same)
  next
    case False
    with le have lt: "ex + 1 \<le> ey" by simp
    then have eyy: "ey = exponent y" by (auto simp: ey_def ex_def)
    have top: "(2::real) powi (ex + 1) = 2 ^ 53 * ux"
      using power_int_add [of "2::real" 53 "ex - 52"] by (simp add: ux_def add.commute)
    have bot: "(2::real) powi ey = 2 ^ 52 * uy"
      using power_int_add [of "2::real" 52 "ey - 52"] by (simp add: uy_def add.commute)
    have "x < 2 powi (exponent x + 1)" using x by (rule exponent_bounds)
    also have "\<dots> \<le> 2 powi (ex + 1)"
      by (rule power_int_increasing) (simp_all add: ex_def)
    finally have "x < 2 ^ 53 * ux" by (simp only: top)
    then have "x / ux \<le> of_int (2 ^ 53)" using ux by (simp add: pos_divide_le_eq)
    then have "round_half_even (x / ux) \<le> round_half_even (of_int (2 ^ 53))"
      by (rule round_half_even_mono)
    then have "round_half_even (x / ux) \<le> 2 ^ 53"
      by (simp only: round_half_even_of_int)
    then have "(of_int (round_half_even (x / ux)) :: real) \<le> of_int (2 ^ 53)"
      by (simp only: of_int_le_iff)
    then have "of_int (round_half_even (x / ux)) * ux \<le> 2 ^ 53 * ux"
      using ux by (simp add: mult_right_mono)
    then have a: "double x \<le> 2 powi (ex + 1)" by (simp only: dx top)
    have b: "(2::real) powi (ex + 1) \<le> 2 powi ey"
      using lt by (intro power_int_increasing) simp_all
    have "2 powi ey \<le> y" unfolding eyy using y by (rule exponent_bounds)
    then have "2 ^ 52 * uy \<le> y" by (simp only: bot)
    then have "of_int (2 ^ 52) \<le> y / uy" using uy by (simp add: pos_le_divide_eq)
    then have "round_half_even (of_int (2 ^ 52)) \<le> round_half_even (y / uy)"
      by (rule round_half_even_mono)
    then have "2 ^ 52 \<le> round_half_even (y / uy)"
      by (simp only: round_half_even_of_int)
    then have "(of_int (2 ^ 52) :: real) \<le> of_int (round_half_even (y / uy))"
      by (simp only: of_int_le_iff)
    then have "2 ^ 52 * uy \<le> of_int (round_half_even (y / uy)) * uy"
      using uy by (simp add: mult_right_mono)
    then have c: "2 powi ey \<le> double y" by (simp only: dy bot)
    from a b c show ?thesis by linarith
  qed
qed

lemma double_one: "double 1 = 1"
  by code_simp

lemma double_sixty: "double 60 = 60"
  by code_simp

lemma skill_rule_outcome:
  "skill_rule profile posting (0, []) =
     (double (double (real (card (set (normalize_tokens (skills profile))
                   \<inter> set (normalize_tokens (job_skills posting))))
        / real (max (card (set (normalize_tokens (job_skills posting)))) 1)) * 60),
      if set (normalize_tokens (skills profile)) \<inter> set (normalize_tokens (job_skills posting)) = {}
      then []
      else [str_nat (card (set (normalize_tokens (skills profile))
                   \<inter> set (normalize_tokens (job_skills posting)))) @ '' skill matches''])"
  by (simp add: skill_rule_def Let_def double_zero)

lemma overlap_ratio_bounds:
  assumes "a \<le> b" and "0 < b"
  shows "0 \<le> double (double (real a / real b) * 60)"
    and "double (double (real a / real b) * 60) \<le> 60"
proof -
  have q0: "0 \<le> real a / real b" by simp
  from assms have q1: "real a / real b \<le> 1" by (simp add: divide_le_eq_1)
  have d0: "0 \<le> double (real a / real b)" using q0 by (rule double_nonneg)
  have "double (real a / real b) \<le> double 1" using q0 q1 by (rule double_mono)
  then have d1: "double (real a / real b) \<le> 1" by (simp only: double_one)
  have p0: "0 \<le> double (real a / real b) * 60" using d0 by simp
  have "double (real a / real b) * 60 \<le> 1 * 60" using d1 by (rule mult_right_mono) simp
  then have p1: "double (real a / real b) * 60 \<le> 60" by (simp only: mult_1)
  show "0 \<le> double (double (real a / real b) * 60)" using p0 by (rule double_nonneg)
  have "double (double (real a / real b) * 60) \<le> double 60" using p0 p1 by (rule double_mono)
  then show "double (double (real a / real b) * 60) \<le> 60" by (simp only: double_sixty)
qed

lemma skill_rule_bounds:
  "0 \<le> fst (skill_rule profile posting (0, []))"
  "fst (skill_rule profile posting (0, [])) \<le> 60"
proof -
  let ?ov = "set (normalize_tokens (skills profile)) \<inter> set (normalize_tokens (job_skills posting))"
  let ?req = "set (normalize_tokens (job_skills posting))"
  have "card ?ov \<le> card ?req" by (rule card_mono) auto
  then have le: "card ?ov \<le> max (card ?req) 1" by simp
  have pos: "0 < max (card ?req) 1" by simp
  show "0 \<le> fst (skill_rule profile posting (0, []))"
    unfolding skill_rule_outcome fst_conv by (rule overlap_ratio_bounds [OF le pos])
  show "fst (skill_rule profile posting (0, [])) \<le> 60"
    unfolding skill_rule_outcome fst_conv by (rule overlap_ratio_bounds [OF le pos])
qed

lemma title_rule_outcome:
  "title_rule profile posting (0, []) = (0, []) \<or>
   title_rule profile posting (0, []) = (15, [''title matches target''])"
  by (simp add: title_rule_def Let_def)

lemma remote_rule_outcome:
  "remote_rule profile posting (0, []) = (0, []) \<or>
   remote_rule profile posting (0, []) = (10, [''remote friendly'']) \<or>
   remote_rule profile posting (0, []) = (- 20, [''not remote''])"
  by (simp add: remote_rule_def)

lemma location_rule_outcome:
  "location_rule profile posting (0, []) = (0, []) \<or>
   location_rule profile posting (0, []) = (10, [''location match''])"
  by (simp add: location_rule_def split: option.splits)

lemma compensation_rule_outcome:
  "compensation_rule profile posting (0, []) = (0, []) \<or>
   compensation_rule profile posting (0, []) = (10, [''meets compensation floor'']) \<or>
   compensation_rule profile posting (0, []) = (- 10, [''below compensation target''])"
  by (simp add: compensation_rule_def split: option.splits)

lemma experience_rule_outcome:
  "experience_rule profile posting (0, []) = (0, []) \<or>
   experience_rule profile posting (0, []) = (5, [''experience level match''])"
  by (simp add: experience_rule_def split: option.splits)

lemma industry_rule_outcome:
  "industry_rule profile posting (0, []) = (0, []) \<or>
   industry_rule profile posting (0, []) = (5, [''industry preference''])"
  by (simp add: industry_rule_def split: option.splits)

lemma score_job_score: "score (score_job profile posting) = py_round (fst (score_rules profile posting)) 2"
  by (simp add: score_job_def split: prod.splits)

lemma score_rules_range:
  "- 30 \<le> fst (score_rules profile posting)" "fst (score_rules profile posting) \<le> 115"
proof -
  have 2: "0 \<le> fst (title_rule profile posting (0, []))"
    "fst (title_rule profile posting (0, [])) \<le> 15"
    using title_rule_outcome [of profile posting] by auto
  have 3: "- 20 \<le> fst (remote_rule profile posting (0, []))"
    "fst (remote_rule profile posting (0, [])) \<le> 10"
    using remote_rule_outcome [of profile posting] by auto
  have 4: "0 \<le> fst (location_rule profile posting (0, []))"
    "fst (location_rule profile posting (0, [])) \<le> 10"
    using location_rule_outcome [of profile posting] by auto
  have 5: "- 10 \<le> fst (compensation_rule profile posting (0, []))"
    "fst (compensation_rule profile posting (0, [])) \<le> 10"
    using compensation_rule_outcome [of profile posting] by auto
  have 6: "0 \<le> fst (experience_rule profile posting (0, []))"
    "fst (experience_rule profile posting (0, [])) \<le> 5"
    using experience_rule_outcome [of profile posting] by auto
  have 7: "0 \<le> fst (industry_rule profile posting (0, []))"
    "fst (industry_rule profile posting (0, [])) \<le> 5"
    using industry_rule_outcome [of profile posting] by auto
  show "- 30 \<le> fst (score_rules profile posting)"
    unfolding score_rules_sum [of profile posting] fst_conv
    using skill_rule_bounds(1) [of profile posting] 2(1) 3(1) 4(1) 5(1) 6(1) 7(1) by linarith
  show "fst (score_rules profile posting) \<le> 115"
    unfolding score_rules_sum [of profile posting] fst_conv
    using skill_rule_bounds(2) [of profile posting] 2(2) 3(2) 4(2) 5(2) 6(2) 7(2) by linarith
qed

lemma skill_rule_silent:
  "snd (skill_rule profile posting (0, [])) = [] \<Longrightarrow> fst (skill_rule profile posting (0, [])) = 0"
  by (simp add: skill_rule_outcome double_zero split: if_splits)

lemma skill_fragment_last: "last (str_nat n @ '' skill matches'') = CHR ''s''"
  by simp

lemma score_rules_minimum:
  assumes "snd (score_rules profile posting) = [''not remote'', ''below compensation target'']"
  shows "fst (score_rules profile posting) = - 30"
proof -
  let ?b1 = "snd (skill_rule profile posting (0, []))"
  let ?c2 = "title_rule profile posting (0, [])"
  let ?c3 = "remote_rule profile posting (0, [])"
  let ?c4 = "location_rule profile posting (0, [])"
  let ?c5 = "compensation_rule profile posting (0, [])"
  let ?c6 = "experience_rule profile posting (0, [])"
  let ?c7 = "industry_rule profile posting (0, [])"
  have bits: "?b1 @ snd ?c2 @ snd ?c3 @ snd ?c4 @ snd ?c5 @ snd ?c6 @ snd ?c7
                = [''not remote'', ''below compensation target'']"
    using assms unfolding score_rules_sum [of profile posting] by simp
  then have "set (?b1 @ snd ?c2 @ snd ?c3 @ snd ?c4 @ snd ?c5 @ snd ?c6 @ snd ?c7)
                = {''not remote'', ''below compensation target''}"
    by simp
  then have sub: "set ?b1 \<subseteq> {''not remote'', ''below compensation target''}"
    "set (snd ?c2) \<subseteq> {''not remote'', ''below compensation target''}"
    "set (snd ?c3) \<subseteq> {''not remote'', ''below compensation target''}"
    "set (snd ?c4) \<subseteq> {''not remote'', ''below compensation target''}"
    "set (snd ?c5) \<subseteq> {''not remote'', ''below compensation target''}"
    "set (snd ?c6) \<subseteq> {''not remote'', ''below compensation target''}"
    "set (snd ?c7) \<subseteq> {''not remote'', ''below compensation target''}"
    by auto
  have "?b1 = []"
  proof (rule ccontr)
    assume "?b1 \<noteq> []"
    then obtain n where "?b1 = [str_nat n @ '' skill matches'']"
      by (auto simp: skill_rule_outcome split: if_splits)
    with sub(1) have "str_nat n @ '' skill matches'' \<in> {''not remote'', ''below compensation target''}"
      by simp
    then have "last (str_nat n @ '' skill matches'') \<in> {CHR ''e'', CHR ''t''}"
      by (elim insertE emptyE; simp only: ; simp)
    then show False by (simp add: skill_fragment_last)
  qed
  then have c1: "fst (skill_rule profile posting (0, [])) = 0" and b1: "?b1 = []"
    by (simp_all add: skill_rule_silent)
  have c2: "?c2 = (0, [])"
    using title_rule_outcome [of profile posting] sub(2) by auto
  have c4: "?c4 = (0, [])"
    using location_rule_outcome [of profile posting] sub(4) by auto
  have c6: "?c6 = (0, [])"
    using experience_rule_outcome [of profile posting] sub(6) by auto
  have c7: "?c7 = (0, [])"
    using industry_rule_outcome [of profile posting] sub(7) by auto
  have c3: "?c3 = (0, []) \<or> ?c3 = (- 20, [''not remote''])"
    using remote_rule_outcome [of profile posting] sub(3) by auto
  have c5: "?c5 = (0, []) \<or> ?c5 = (- 10, [''below compensation target''])"
    using compensation_rule_outcome [of profile posting] sub(5) by auto
  from bits have "snd ?c3 @ snd ?c5 = [''not remote'', ''below compensation target'']"
    by (simp add: b1 c2 c4 c6 c7)
  with c3 c5 have "?c3 = (- 20, [''not remote''])" "?c5 = (- 10, [''below compensation target''])"
    by auto
  then show ?thesis
    unfolding score_rules_sum [of profile posting] by (simp add: c1 c2 c4 c6 c7)
qed

lemma score_rules_maximum:
  assumes bits: "snd (score_rules profile posting) =
      [str_nat (card (set (normalize_tokens (job_skills posting)))) @ '' skill matches'',
       ''title matches target'', ''remote friendly'', ''location match'',
       ''meets compensation floor'', ''experience level match'', ''industry preference'']"
    and full: "set (normalize_tokens (job_skills posting)) \<subseteq> set (normalize_tokens (skills profile))"
  shows "fst (score_rules profile posting) = 115"
proof -
  let ?req = "set (normalize_tokens (job_skills posting))"
  let ?c1 = "skill_rule profile posting (0, [])"
  let ?c2 = "title_rule profile posting (0, [])"
  let ?c3 = "remote_rule profile posting (0, [])"
  let ?c4 = "location_rule profile posting (0, [])"
  let ?c5 = "compensation_rule profile posting (0, [])"
  let ?c6 = "experience_rule profile posting (0, [])"
  let ?c7 = "industry_rule profile posting (0, [])"
  have ov: "set (normalize_tokens (skills profile)) \<inter> ?req = ?req"
    using full by auto
  have l1: "length (snd ?c1) \<le> 1" by (simp add: skill_rule_outcome)
  have l2: "length (snd ?c2) \<le> 1" using title_rule_outcome [of profile posting] by auto
  have l3: "length (snd ?c3) \<le> 1" using remote_rule_outcome [of profile posting] by auto
  have l4: "length (snd ?c4) \<le> 1" using location_rule_outcome [of profile posting] by auto
  have l5: "length (snd ?c5) \<le> 1" using compensation_rule_outcome [of profile posting] by auto
  have l6: "length (snd ?c6) \<le> 1" using experience_rule_outcome [of profile posting] by auto
  have l7: "length (snd ?c7) \<le> 1" using industry_rule_outcome [of profile posting] by auto
  have eq: "snd ?c1 @ snd ?c2 @ snd ?c3 @ snd ?c4 @ snd ?c5 @ snd ?c6 @ snd ?c7 =
      [str_nat (card ?req) @ '' skill matches'',
       ''title matches target'', ''remote friendly'', ''location match'',
       ''meets compensation floor'', ''experience level match'', ''industry preference'']"
    using bits unfolding score_rules_sum [of profile posting] by simp
  then have "length (snd ?c1 @ snd ?c2 @ snd ?c3 @ snd ?c4 @ snd ?c5 @ snd ?c6 @ snd ?c7) = 7"
    by simp
  then have len: "length (snd ?c1) + length (snd ?c2) + length (snd ?c3) + length (snd ?c4)
      + length (snd ?c5) + length (snd ?c6) + length (snd ?c7) = 7"
    by simp
  from len l1 l2 l3 l4 l5 l6 l7 have ne: "snd ?c1 \<noteq> []" "snd ?c2 \<noteq> []" "snd ?c3 \<noteq> []"
    "snd ?c4 \<noteq> []" "snd ?c5 \<noteq> []" "snd ?c6 \<noteq> []" "snd ?c7 \<noteq> []"
    by (auto simp: Suc_le_eq)
  from ne(1) have "?req \<noteq> {}" by (simp add: skill_rule_outcome ov split: if_splits)
  then have "0 < card ?req" by (simp add: card_gt_0_iff)
  then have "real (card ?req) / real (max (card ?req) 1) = 1" by (simp add: max_def)
  then have c1: "?c1 = (60, [str_nat (card ?req) @ '' skill matches''])"
    using \<open>?req \<noteq> {}\<close> by (simp add: skill_rule_outcome ov double_one double_sixty)
  have c2: "?c2 = (15, [''title matches target''])"
    using title_rule_outcome [of profile posting] ne(2) by auto
  have c4: "?c4 = (10, [''location match''])"
    using location_rule_outcome [of profile posting] ne(4) by auto
  have c6: "?c6 = (5, [''experience level match''])"
    using experience_rule_outcome [of profile posting] ne(6) by auto
  have c7: "?c7 = (5, [''industry preference''])"
    using industry_rule_outcome [of profile posting] ne(7) by auto
  have c3: "?c3 = (10, [''remote friendly'']) \<or> ?c3 = (- 20, [''not remote''])"
    using remote_rule_outcome [of profile posting] ne(3) by auto
  have c5: "?c5 = (10, [''meets compensation floor''])
            \<or> ?c5 = (- 10, [''below compensation target''])"
    using compensation_rule_outcome [of profile posting] ne(5) by auto
  from eq c3 c5 have "?c3 = (10, [''remote friendly''])" "?c5 = (10, [''meets compensation floor''])"
    by (auto simp: c1 c2 c4 c6 c7)
  then show ?thesis
    unfolding score_rules_sum [of profile posting] by (simp add: c1 c2 c4 c6 c7)
qed

lemma set_normalize_tokens_append:
  "set (normalize_tokens xs) \<subseteq> set (normalize_tokens (xs @ ys))"
  by (auto simp: set_normalize_tokens)

lemma skill_rule_grows:
  "fst (skill_rule profile posting (0, []))
     \<le> fst (skill_rule (profile\<lparr>skills := skills profile @ extra\<rparr>) posting (0, []))"
proof -
  let ?req = "set (normalize_tokens (job_skills posting))"
  let ?ov = "set (normalize_tokens (skills profile)) \<inter> ?req"
  let ?ov' = "set (normalize_tokens (skills profile @ extra)) \<inter> ?req"
  let ?q = "real (card ?ov) / real (max (card ?req) 1)"
  let ?q' = "real (card ?ov') / real (max (card ?req) 1)"
  have "?ov \<subseteq> ?ov'" using set_normalize_tokens_append [of "skills profile" extra] by auto
  then have "card ?ov \<le> card ?ov'" by (intro card_mono) auto
  then have "real (card ?ov) \<le> real (card ?ov')" by simp
  then have q: "?q \<le> ?q'" by (rule divide_right_mono) simp
  have q0: "0 \<le> ?q" by simp
  have d: "double ?q \<le> double ?q'" using q0 q by (rule double_mono)
  have d0: "0 \<le> double ?q" using q0 by (rule double_nonneg)
  have p: "double ?q * 60 \<le> double ?q' * 60" using d by (rule mult_right_mono) simp
  have p0: "0 \<le> double ?q * 60" using d0 by simp
  have "double (double ?q * 60) \<le> double (double ?q' * 60)" using p0 p by (rule double_mono)
  then show ?thesis
    unfolding skill_rule_outcome fst_conv by simp
qed

lemma score_rules_grows:
  "fst (score_rules profile posting)
     \<le> fst (score_rules (profile\<lparr>skills := skills profile @ extra\<rparr>) posting)"
proof -
  let ?p' = "profile\<lparr>skills := skills profile @ extra\<rparr>"
  have rest: "title_rule ?p' posting = title_rule profile posting"
    "remote_rule ?p' posting = remote_rule profile posting"
    "location_rule ?p' posting = location_rule profile posting"
    "compensation_rule ?p' posting = compensation_rule profile posting"
    "experience_rule ?p' posting = experience_rule profile posting"
    "industry_rule ?p' posting = industry_rule profile posting"
    by (simp_all add: fun_eq_iff title_rule_def remote_rule_def location_rule_def
        compensation_rule_def experience_rule_def industry_rule_def)
  show ?thesis
    unfolding score_rules_sum [of profile] score_rules_sum [of ?p'] rest fst_conv
    using skill_rule_grows [of profile posting extra] by simp
qed

text \<open>
  C9. The score of every profile and posting lies between -30 and 115. It is -30 when the
  rationale fragments are exactly \<open>not remote\<close> and \<open>below compensation target\<close>, that
  is when the two penalties fire and no other rule does. It is 115 when the seven
  fragments are the skill matches and the six bonuses and every normalized skill of the
  posting is a normalized skill of the profile (ratio 1):
  60 + 15 + 10 + 10 + 10 + 5 + 5.
\<close>

theorem score_range:
  "- 30 \<le> score (score_job profile posting) \<and> score (score_job profile posting) \<le> 115 \<and>
   (snd (score_rules profile posting) = [''not remote'', ''below compensation target'']
      \<longrightarrow> score (score_job profile posting) = - 30) \<and>
   (snd (score_rules profile posting) =
      [str_nat (card (set (normalize_tokens (job_skills posting)))) @ '' skill matches'',
       ''title matches target'', ''remote friendly'', ''location match'',
       ''meets compensation floor'', ''experience level match'', ''industry preference''] \<and>
    set (normalize_tokens (job_skills posting)) \<subseteq> set (normalize_tokens (skills profile))
      \<longrightarrow> score (score_job profile posting) = 115)"
proof (intro conjI impI)
  have "py_round (of_int (- 30)) 2 \<le> py_round (fst (score_rules profile posting)) 2"
    by (rule py_round_mono) (simp add: score_rules_range)
  then show "- 30 \<le> score (score_job profile posting)"
    by (simp only: py_round_of_int score_job_score)
next
  have "py_round (fst (score_rules profile posting)) 2 \<le> py_round (of_int 115) 2"
    by (rule py_round_mono) (simp add: score_rules_range)
  then show "score (score_job profile posting) \<le> 115"
    by (simp only: py_round_of_int score_job_score)
next
  assume "snd (score_rules profile posting) = [''not remote'', ''below compensation target'']"
  then have "fst (score_rules profile posting) = of_int (- 30)"
    by (simp add: score_rules_minimum)
  then show "score (score_job profile posting) = - 30"
    by (simp only: py_round_of_int score_job_score)
next
  assume "snd (score_rules profile posting) =
      [str_nat (card (set (normalize_tokens (job_skills posting)))) @ '' skill matches'',
       ''title matches target'', ''remote friendly'', ''location match'',
       ''meets compensation floor'', ''experience level match'', ''industry preference''] \<and>
    set (normalize_tokens (job_skills posting)) \<subseteq> set (normalize_tokens (skills profile))"
  then have "fst (score_rules profile posting) = of_int 115"
    by (simp add: score_rules_maximum)
  then show "score (score_job profile posting) = 115"
    by (simp only: py_round_of_int score_job_score)
qed

theorem score_range_witness:
  "score (score_job profile_min posting_min) = - 30 \<and>
   score (score_job profile_max posting_max) = 115 \<and>
   - 30 \<le> score (score_job profile_A posting_A) \<and> score (score_job profile_A posting_A) \<le> 115"
proof -
  have lo: "snd (score_rules profile_min posting_min)
              = [''not remote'', ''below compensation target'']"
    by code_simp
  have n: "card (set (normalize_tokens (job_skills posting_max))) = 2"
    by code_simp
  have d: "str_nat 2 = ''2''"
    by code_simp
  have "snd (score_rules profile_max posting_max) =
      [''2 skill matches'',
       ''title matches target'', ''remote friendly'', ''location match'',
       ''meets compensation floor'', ''experience level match'', ''industry preference'']"
    by code_simp
  then have hi: "snd (score_rules profile_max posting_max) =
      [str_nat (card (set (normalize_tokens (job_skills posting_max)))) @ '' skill matches'',
       ''title matches target'', ''remote friendly'', ''location match'',
       ''meets compensation floor'', ''experience level match'', ''industry preference'']"
    by (simp add: n d)
  have full: "set (normalize_tokens (job_skills posting_max))
                \<subseteq> set (normalize_tokens (skills profile_max))"
    by code_simp
  show ?thesis
    using score_range [of profile_min posting_min] score_range [of profile_max posting_max]
      score_range [of profile_A posting_A] lo hi full
    by blast
qed

text \<open>
  C8. Let \<open>s\<close> be a skill whose normalized form is among the normalized skills of the
  posting and not among those of the profile. The score of the posting for the profile
  with \<open>s\<close> appended to its skills is at least the score for the profile as it is, and
  the overlap the skill rule counts has exactly one more member.
\<close>

theorem skill_monotone:
  assumes "lower (strip s) \<in> set (normalize_tokens (job_skills posting))"
    and "lower (strip s) \<notin> set (normalize_tokens (skills profile))"
  shows "score (score_job profile posting)
           \<le> score (score_job (profile\<lparr>skills := skills profile @ [s]\<rparr>) posting) \<and>
         card (set (normalize_tokens (skills profile @ [s]))
                 \<inter> set (normalize_tokens (job_skills posting)))
           = Suc (card (set (normalize_tokens (skills profile))
                          \<inter> set (normalize_tokens (job_skills posting))))"
proof
  show "score (score_job profile posting)
           \<le> score (score_job (profile\<lparr>skills := skills profile @ [s]\<rparr>) posting)"
    unfolding score_job_score by (rule py_round_mono) (rule score_rules_grows)
next
  let ?req = "set (normalize_tokens (job_skills posting))"
  let ?have = "set (normalize_tokens (skills profile))"
  have ne: "strip s \<noteq> []"
    using assms(1) normalize_tokens_elem(1) [of "lower (strip s)" "job_skills posting"]
    by (simp add: lower_Nil_iff)
  have "set (normalize_tokens (skills profile @ [s])) = insert (lower (strip s)) ?have"
    using ne by (auto simp: set_normalize_tokens)
  then have ov: "set (normalize_tokens (skills profile @ [s])) \<inter> ?req
                   = insert (lower (strip s)) (?have \<inter> ?req)"
    using assms(1) by auto
  have "card (insert (lower (strip s)) (?have \<inter> ?req)) = Suc (card (?have \<inter> ?req))"
    using assms(2) by (intro card_insert_disjoint) auto
  then show "card (set (normalize_tokens (skills profile @ [s])) \<inter> ?req)
                  = Suc (card (?have \<inter> ?req))"
    by (simp only: ov)
qed

theorem skill_monotone_witness:
  "score (score_job (profile_A\<lparr>skills := [''python'']\<rparr>) posting_A) = 45 \<and>
   score (score_job (profile_A\<lparr>skills := [''python''] @ ['' SQL'']\<rparr>) posting_A) = 75 \<and>
   score (score_job (profile_A\<lparr>skills := [''python'']\<rparr>) posting_A)
     \<le> score (score_job (profile_A\<lparr>skills := [''python''] @ ['' SQL'']\<rparr>) posting_A)"
proof -
  let ?p = "profile_A\<lparr>skills := [''python'']\<rparr>"
  have 1: "lower (strip '' SQL'') \<in> set (normalize_tokens (job_skills posting_A))"
    by code_simp
  have 2: "lower (strip '' SQL'') \<notin> set (normalize_tokens (skills ?p))"
    by code_simp
  have 3: "score (score_job ?p posting_A) = 45"
    by code_simp
  have 4: "score (score_job (profile_A\<lparr>skills := [''python''] @ ['' SQL'']\<rparr>) posting_A) = 75"
    by code_simp
  have 5: "?p\<lparr>skills := skills ?p @ ['' SQL'']\<rparr> = profile_A\<lparr>skills := [''python''] @ ['' SQL'']\<rparr>"
    by simp
  show ?thesis
    using skill_monotone [OF 1 2] 3 4 unfolding 5 by simp
qed

section \<open>Properties of the ranking\<close>

lemma recommend_jobs_deterministic:
  "deterministic_path w profile jobs top_k use_gpt \<Longrightarrow>
   recommend_jobs w profile jobs top_k use_gpt = Inr (rank_scored profile jobs top_k)"
  by (auto simp: recommend_jobs_def deterministic_path_def Let_def split: sum.splits)

lemma length_slice_to: "0 \<le> k \<Longrightarrow> length (slice_to xs k) = min (nat k) (length xs)"
  by (simp add: slice_to_def min_def)

lemma slice_to_take: "\<exists>n. slice_to xs k = take n xs"
  by (auto simp: slice_to_def)

lemma length_sort_reverse: "length (sort_reverse key xs) = length xs"
  by (simp add: sort_reverse_def)

lemma sort_reverse_descending: "sorted_wrt (\<lambda>a b. key b \<le> key a) (sort_reverse key xs)"
proof -
  have "sorted (map key (sort_key key (rev xs)))" by (rule sorted_sort_key)
  then have "sorted_wrt (\<lambda>a b. key a \<le> key b) (sort_key key (rev xs))"
    by (simp only: sorted_map)
  then show ?thesis
    by (simp add: sort_reverse_def sorted_wrt_rev)
qed

lemma sort_reverse_stable:
  "filter (\<lambda>x. key x = v) (sort_reverse key xs) = filter (\<lambda>x. key x = v) xs"
proof -
  have "filter (\<lambda>x. key x = v) (sort_reverse key xs)
          = rev (filter (\<lambda>x. key x = v) (sort_key key (rev xs)))"
    by (simp add: sort_reverse_def rev_filter)
  also have "\<dots> = rev (filter (\<lambda>x. key x = v) (rev xs))"
    by (simp only: sort_key_stable)
  also have "\<dots> = filter (\<lambda>x. key x = v) xs"
    by (simp add: rev_filter)
  finally show ?thesis .
qed

lemma rank_scored_length:
  "0 \<le> top_k \<Longrightarrow> length (rank_scored profile jobs top_k) = min (nat top_k) (length jobs)"
  by (simp add: rank_scored_def Let_def length_slice_to length_sort_reverse)

lemma rank_scored_descending:
  "sorted_wrt (\<lambda>a b. score b \<le> score a) (rank_scored profile jobs top_k)"
proof -
  obtain n where "rank_scored profile jobs top_k
      = take n (sort_reverse score (map (score_job profile) jobs))"
    using slice_to_take by (auto simp: rank_scored_def Let_def)
  then show ?thesis
    by (simp add: sorted_wrt_take sort_reverse_descending)
qed

lemma job_score_job: "job (score_job profile posting) = posting"
  by (simp add: score_job_def split: prod.splits)

lemma rank_scored_ties:
  "prefix (map job (filter (\<lambda>r. score r = v) (rank_scored profile jobs top_k)))
          (filter (\<lambda>posting. score (score_job profile posting) = v) jobs)"
proof -
  let ?scored = "map (score_job profile) jobs"
  obtain n where n: "rank_scored profile jobs top_k = take n (sort_reverse score ?scored)"
    using slice_to_take by (auto simp: rank_scored_def Let_def)
  have "prefix (take n (sort_reverse score ?scored)) (sort_reverse score ?scored)"
    by (rule take_is_prefix)
  then have "prefix (filter (\<lambda>r. score r = v) (take n (sort_reverse score ?scored)))
                    (filter (\<lambda>r. score r = v) (sort_reverse score ?scored))"
    by (rule filter_mono_prefix) 
  then have "prefix (filter (\<lambda>r. score r = v) (rank_scored profile jobs top_k))
                    (filter (\<lambda>r. score r = v) ?scored)"
    by (simp only: n sort_reverse_stable)
  then have "prefix (map job (filter (\<lambda>r. score r = v) (rank_scored profile jobs top_k)))
                    (map job (filter (\<lambda>r. score r = v) ?scored))"
    by (rule map_mono_prefix)
  moreover have "map job (filter (\<lambda>r. score r = v) ?scored)
                   = filter (\<lambda>posting. score (score_job profile posting) = v) jobs"
    by (simp add: filter_map comp_def job_score_job)
  ultimately show ?thesis by simp
qed

text \<open>
  C1. On the deterministic path (the external strategy is not tried, or raises, or
  returns nothing) and for \<open>top_k\<close> at least 0, \<open>recommend_jobs\<close> returns a list of exactly
  \<open>min(top_k, n)\<close> recommendations, \<open>n\<close> the number of postings, in descending order of
  score.
\<close>

theorem deterministic_ranking:
  assumes "0 \<le> top_k" and "deterministic_path w profile jobs top_k use_gpt"
  shows "\<exists>recs. recommend_jobs w profile jobs top_k use_gpt = Inr recs \<and>
           length recs = min (nat top_k) (length jobs) \<and>
           sorted_wrt (\<lambda>a b. score b \<le> score a) recs"
  using assms
  by (simp add: recommend_jobs_deterministic rank_scored_length rank_scored_descending)

theorem deterministic_ranking_witness:
  "recommend_jobs world_malformed profile_A three_jobs 2 None
     = Inr [score_job profile_A posting_A, score_job profile_A posting_C] \<and>
   length [score_job profile_A posting_A, score_job profile_A posting_C]
     = min (nat 2) (length three_jobs) \<and>
   score (score_job profile_A posting_C) \<le> score (score_job profile_A posting_A)"
proof -
  have d: "deterministic_path world_malformed profile_A three_jobs 2 None"
    by code_simp
  have v: "recommend_jobs world_malformed profile_A three_jobs 2 None
     = Inr [score_job profile_A posting_A, score_job profile_A posting_C]"
    by code_simp
  show ?thesis
    using deterministic_ranking [of 2, OF _ d] v by auto
qed

text \<open>
  C10. On the deterministic path the sort is stable and its only key is the score: for
  every score \<open>v\<close>, the postings recommended with score \<open>v\<close> are, in the order of the
  output, an initial segment of the input postings whose score is \<open>v\<close>, in the order of
  the input (the cut to \<open>top_k\<close> may drop the last of them).
\<close>

theorem ties_keep_input_order:
  assumes "deterministic_path w profile jobs top_k use_gpt"
  shows "\<exists>recs. recommend_jobs w profile jobs top_k use_gpt = Inr recs \<and>
           prefix (map job (filter (\<lambda>r. score r = v) recs))
                  (filter (\<lambda>posting. score (score_job profile posting) = v) jobs)"
  using assms by (simp add: recommend_jobs_deterministic rank_scored_ties)

theorem ties_keep_input_order_witness:
  "recommend_jobs world_no_key profile_A three_jobs 3 None
     = Inr [score_job profile_A posting_A, score_job profile_A posting_C,
            score_job profile_A posting_min] \<and>
   filter (\<lambda>posting. score (score_job profile_A posting) = 0) three_jobs
     = [posting_C, posting_min] \<and>
   prefix [posting_C, posting_min]
     (filter (\<lambda>posting. score (score_job profile_A posting) = 0) three_jobs)"
proof -
  have d: "deterministic_path world_no_key profile_A three_jobs 3 None"
    by code_simp
  have v: "recommend_jobs world_no_key profile_A three_jobs 3 None
     = Inr [score_job profile_A posting_A, score_job profile_A posting_C,
            score_job profile_A posting_min]"
    by code_simp
  have s: "score (score_job profile_A posting_A) = 75" "score (score_job profile_A posting_C) = 0"
    "score (score_job profile_A posting_min) = 0"
    by code_simp+
  have j: "job (score_job profile_A posting_C) = posting_C"
    "job (score_job profile_A posting_min) = posting_min"
    by (simp_all add: job_score_job)
  have f: "filter (\<lambda>posting. score (score_job profile_A posting) = 0) three_jobs
     = [posting_C, posting_min]"
    by (simp add: three_jobs_def s)
  show ?thesis
    using ties_keep_input_order [OF d, of 0] v f by (simp add: s j)
qed

section \<open>Properties of the selector and of the external strategy\<close>

lemma float_of_json_rounds: "float_of_json w (JInt (2 ^ 53 + 1)) = Inr (2 ^ 53)"
proof -
  have "double 9007199254740993 = 9007199254740992"
    by code_simp
  then show ?thesis by simp
qed

lemma job_lookup_snoc: "job_lookup (jobs @ [posting]) = (job_lookup jobs)(job_id posting \<mapsto> posting)"
  by (simp add: job_lookup_def)

lemma job_lookup_Some: "job_lookup jobs s = Some posting \<Longrightarrow> posting \<in> set jobs \<and> job_id posting = s"
proof (induction jobs rule: rev_induct)
  case Nil
  then show ?case by (simp add: job_lookup_def)
next
  case (snoc x xs)
  then show ?case by (auto simp: job_lookup_snoc split: if_splits)
qed

lemma job_lookup_None: "job_lookup jobs s = None \<longleftrightarrow> s \<notin> job_id ` set jobs"
proof (induction jobs rule: rev_induct)
  case Nil
  then show ?case by (simp add: job_lookup_def)
next
  case (snoc x xs)
  then show ?case by (auto simp: job_lookup_snoc)
qed

lemma lookup_get_Some:
  "lookup_get lookup ident = Inr (Some posting) \<Longrightarrow> \<exists>s. lookup s = Some posting"
  by (cases ident) auto

lemma gpt_items_jobs:
  assumes "gpt_items w lookup items acc = Inr out"
    and "\<And>s posting. lookup s = Some posting \<Longrightarrow> P posting"
    and "\<And>r. r \<in> set acc \<Longrightarrow> P (job r)"
  shows "r \<in> set out \<Longrightarrow> P (job r)"
  using assms(1,3)
proof (induction items arbitrary: acc)
  case Nil
  then show ?case by simp
next
  case (Cons item items)
  from Cons.prems(2) obtain ident where ident: "dict_get item ''id'' JNull = Inr ident"
    by (cases "dict_get item ''id'' JNull") simp_all
  from Cons.prems(2) ident obtain found where found: "lookup_get lookup ident = Inr found"
    by (cases "lookup_get lookup ident") simp_all
  show ?case
  proof (cases found)
    case None
    with Cons.prems(2) ident found have "gpt_items w lookup items acc = Inr out" by simp
    then show ?thesis using Cons.IH Cons.prems(1,3) by blast
  next
    case (Some posting)
    then have p: "P posting" using lookup_get_Some found assms(2) by blast
    from Cons.prems(2) ident found Some obtain s t where
      step: "gpt_items w lookup items
               (acc @ [\<lparr>job = posting, score = s, rationale = t\<rparr>]) = Inr out"
      by (auto split: sum.splits)
    have "\<And>r. r \<in> set (acc @ [\<lparr>job = posting, score = s, rationale = t\<rparr>]) \<Longrightarrow> P (job r)"
      using Cons.prems(3) p by auto
    then show ?thesis using Cons.IH [OF Cons.prems(1) step] by blast
  qed
qed

lemma gpt_items_drop:
  assumes "dict_get item ''id'' JNull = Inr ident" and "lookup_get lookup ident = Inr None"
  shows "gpt_items w lookup (pre @ item # post) acc = gpt_items w lookup (pre @ post) acc"
proof (induction pre arbitrary: acc)
  case Nil
  then show ?case using assms by simp
next
  case (Cons x pre)
  then show ?case by (simp split: sum.splits option.splits)
qed

lemma in_slice_to: "x \<in> set (slice_to xs k) \<Longrightarrow> x \<in> set xs"
  using slice_to_take [of xs k] by (auto dest: in_set_takeD)

lemma gpt_rank_jobs:
  assumes "gpt_rank w profile jobs top_k = Inr recs" and "r \<in> set recs"
  shows "job r \<in> set jobs"
proof (cases "recs = []")
  case True
  with assms(2) show ?thesis by simp
next
  case False
  with assms(1) obtain items out where
    run: "gpt_items w (job_lookup jobs) items [] = Inr out" and recs: "recs = slice_to out top_k"
    by (auto simp: gpt_rank_def Let_def split: if_splits sum.splits option.splits)
  from assms(2) recs have "r \<in> set out" by (auto dest: in_slice_to)
  with run show ?thesis
    using gpt_items_jobs [of w "job_lookup jobs" items "[]" out "\<lambda>p. p \<in> set jobs" r]
      job_lookup_Some by auto
qed

lemma in_rank_scored: "r \<in> set (rank_scored profile jobs top_k) \<Longrightarrow> job r \<in> set jobs"
proof -
  assume "r \<in> set (rank_scored profile jobs top_k)"
  then have "r \<in> set (sort_reverse score (map (score_job profile) jobs))"
    by (auto simp: rank_scored_def Let_def dest: in_slice_to)
  then show ?thesis
    by (auto simp: sort_reverse_def job_score_job)
qed

lemma recommend_jobs_cases:
  "recommend_jobs w profile jobs top_k use_gpt = Inr (rank_scored profile jobs top_k) \<or>
   (\<exists>recs. gpt_rank w profile jobs top_k = Inr recs \<and>
      recommend_jobs w profile jobs top_k use_gpt = Inr recs)"
  by (auto simp: recommend_jobs_def Let_def split: sum.splits)

lemma gpt_items_unhashable:
  "map_of entry ''id'' = Some (JArray xs) \<or> map_of entry ''id'' = Some (JObject kvs) \<Longrightarrow>
   gpt_items w lookup (JObject entry # items) acc = Inl TypeError"
  by auto

text \<open>
  C2. Whatever the environment and the external service do, \<open>recommend_jobs\<close> returns a
  list, and the posting of every recommendation in it is one of the input postings, so
  its id is an id of the input. The same holds of every list \<open>_gpt_rank\<close> returns. In the
  loop of \<open>_gpt_rank\<close> an entry whose id is a string that no input posting has is dropped
  without an error: the loop gives the same result with the entry as without it. (An id
  that is a list or a dict is unhashable: the loop raises, \<open>gpt_items_unhashable\<close>, and
  \<open>recommend_jobs\<close> falls back to the deterministic path, where the property holds too.)
\<close>

theorem referential_integrity:
  "(\<exists>recs. recommend_jobs w profile jobs top_k use_gpt = Inr recs \<and>
      (\<forall>r \<in> set recs. job r \<in> set jobs \<and> job_id (job r) \<in> job_id ` set jobs)) \<and>
   (\<forall>recs. gpt_rank w profile jobs top_k = Inr recs \<longrightarrow>
      (\<forall>r \<in> set recs. job r \<in> set jobs \<and> job_id (job r) \<in> job_id ` set jobs)) \<and>
   (map_of entry ''id'' = Some (JString s) \<and> s \<notin> job_id ` set jobs \<longrightarrow>
      gpt_items w (job_lookup jobs) (before @ JObject entry # after) acc
        = gpt_items w (job_lookup jobs) (before @ after) acc)"
proof (intro conjI allI impI)
  show "\<exists>recs. recommend_jobs w profile jobs top_k use_gpt = Inr recs \<and>
      (\<forall>r \<in> set recs. job r \<in> set jobs \<and> job_id (job r) \<in> job_id ` set jobs)"
    using recommend_jobs_cases [of w profile jobs top_k use_gpt]
    by (auto dest: gpt_rank_jobs in_rank_scored)
next
  fix recs
  assume "gpt_rank w profile jobs top_k = Inr recs"
  then show "\<forall>r \<in> set recs. job r \<in> set jobs \<and> job_id (job r) \<in> job_id ` set jobs"
    by (auto dest: gpt_rank_jobs)
next
  assume a: "map_of entry ''id'' = Some (JString s) \<and> s \<notin> job_id ` set jobs"
  then have "dict_get (JObject entry) ''id'' JNull = Inr (JString s)" by simp
  moreover from a have "lookup_get (job_lookup jobs) (JString s) = Inr None"
    by (simp add: job_lookup_None)
  ultimately show "gpt_items w (job_lookup jobs) (before @ JObject entry # after) acc
        = gpt_items w (job_lookup jobs) (before @ after) acc"
    by (rule gpt_items_drop)
qed

theorem referential_integrity_witness:
  "recommend_jobs world_gpt profile_A three_jobs 5 None
     = Inr [\<lparr>job = posting_A, score = 9, rationale = ''fit''\<rparr>] \<and>
   posting_A \<in> set three_jobs \<and> job_id posting_A \<in> job_id ` set three_jobs \<and>
   gpt_items world_gpt (job_lookup three_jobs)
     ([] @ JObject [(''id'', JString ''zzz''), (''score'', JInt 7)] # []) []
     = gpt_items world_gpt (job_lookup three_jobs) ([] @ []) []"
proof -
  have v: "recommend_jobs world_gpt profile_A three_jobs 5 None
     = Inr [\<lparr>job = posting_A, score = 9, rationale = ''fit''\<rparr>]"
    by code_simp
  have i: "map_of [(''id'', JString ''zzz''), (''score'', JInt 7)] ''id'' = Some (JString ''zzz'')"
    by simp
  have n: "''zzz'' \<notin> job_id ` set three_jobs"
    by (simp add: three_jobs_def posting_A_def posting_C_def posting_min_def)
  show ?thesis
    using referential_integrity [of world_gpt profile_A three_jobs 5 None
        "[(''id'', JString ''zzz''), (''score'', JInt 7)]" "''zzz''" "[]" "[]" "[]"] v i n
    by auto
qed

text \<open>
  C3. \<open>recommend_jobs\<close> never raises: in every world, for every profile, list of postings,
  \<open>top_k\<close> and flag its result is a list (\<open>Inr\<close>), whatever \<open>_gpt_rank\<close> raises. When the
  resolved flag is true and the credential is absent (or empty, which line 118 treats
  alike), the result is that of the deterministic path, in which nothing of the world
  occurs, and it is the result of the call with \<open>use_gpt = False\<close>.
\<close>

theorem never_raises:
  "(\<exists>recs. recommend_jobs w profile jobs top_k use_gpt = Inr recs) \<and>
   (resolve_use_gpt w use_gpt \<and> \<not> has_api_key w \<longrightarrow>
      recommend_jobs w profile jobs top_k use_gpt = Inr (rank_scored profile jobs top_k) \<and>
      recommend_jobs w profile jobs top_k use_gpt
        = recommend_jobs w profile jobs top_k (Some False))"
proof (intro conjI impI)
  show "\<exists>recs. recommend_jobs w profile jobs top_k use_gpt = Inr recs"
    using recommend_jobs_cases [of w profile jobs top_k use_gpt] by auto
next
  assume "resolve_use_gpt w use_gpt \<and> \<not> has_api_key w"
  then show "recommend_jobs w profile jobs top_k use_gpt = Inr (rank_scored profile jobs top_k)"
    by (simp add: recommend_jobs_def)
next
  assume "resolve_use_gpt w use_gpt \<and> \<not> has_api_key w"
  then show "recommend_jobs w profile jobs top_k use_gpt
        = recommend_jobs w profile jobs top_k (Some False)"
    by (simp add: recommend_jobs_def resolve_use_gpt_def)
qed

theorem never_raises_witness:
  "recommend_jobs world_malformed profile_A three_jobs 2 None
     = Inr [score_job profile_A posting_A, score_job profile_A posting_C] \<and>
   gpt_rank world_malformed profile_A three_jobs 2 = Inl AttributeError \<and>
   recommend_jobs world_no_key profile_A three_jobs 2 None
     = Inr (rank_scored profile_A three_jobs 2) \<and>
   recommend_jobs world_no_key profile_A three_jobs 2 None
     = recommend_jobs world_no_key profile_A three_jobs 2 (Some False)"
proof -
  have v: "recommend_jobs world_malformed profile_A three_jobs 2 None
     = Inr [score_job profile_A posting_A, score_job profile_A posting_C]"
    by code_simp
  have g: "gpt_rank world_malformed profile_A three_jobs 2 = Inl AttributeError"
    by code_simp
  have r: "resolve_use_gpt world_no_key None" by code_simp
  have k: "\<not> has_api_key world_no_key" by code_simp
  show ?thesis
    using never_raises [of world_no_key profile_A three_jobs 2 None] v g r k by blast
qed

end
